theory Spec2Isabelle
  imports Complex_Main
begin

section \<open>Outcomes of running C code\<close>

text \<open>
  A C function of the interpreter either returns, or does not return within the
  number of calls and loop iterations the model was given, or runs into behaviour
  the C standard leaves undefined (a NULL dereference, an integer division by
  zero, an out-of-range conversion).  The three cases are kept apart.
\<close>

datatype 'a run = Returns 'a | Fuel_Exhausted | Undefined

definition bind :: "'a run \<Rightarrow> ('a \<Rightarrow> 'b run) \<Rightarrow> 'b run" where
  "bind m f = (case m of Returns v \<Rightarrow> f v | Fuel_Exhausted \<Rightarrow> Fuel_Exhausted | Undefined \<Rightarrow> Undefined)"

section \<open>kunyu.h: error codes, tokens, errors\<close>

datatype KunyuErrorCode =
    KUNYU_OK | KUNYU_ERROR_LEXER | KUNYU_ERROR_PARSER | KUNYU_ERROR_COMPILER
  | KUNYU_ERROR_RUNTIME | KUNYU_ERROR_IO | KUNYU_ERROR_MEMORY

datatype KunyuTokenType =
    KUNYU_TOKEN_EOF | KUNYU_TOKEN_IDENTIFIER | KUNYU_TOKEN_KEYWORD | KUNYU_TOKEN_STRING
  | KUNYU_TOKEN_NUMBER | KUNYU_TOKEN_OPERATOR | KUNYU_TOKEN_DELIMITER | KUNYU_TOKEN_NEWLINE

record Token =
  tok_type :: KunyuTokenType
  tok_value :: string
  tok_line :: int
  tok_column :: int

text \<open>
  The message buffer of \<open>KunyuError\<close> is filled by \<open>snprintf\<close> from a format
  string and its arguments.  A message is modelled as the format (one constructor
  per format string of the interpreter, named after its meaning, and the parser's
  fixed texts under \<open>Msg_syntax\<close>) together with the arguments; the rendering
  into the 256-byte buffer is not modelled.
\<close>

datatype error_message =
    Msg_none
  \<comment> \<open>parser: a fixed message (in English here), or one with the text of a token\<close>
  | Msg_syntax string
  | Msg_syntax_token string string
  \<comment> \<open>interpreter\<close>
  | Msg_variable_already_defined string
  | Msg_function_already_defined string
  | Msg_undefined_variable string
  | Msg_cannot_modify_constant string
  | Msg_expected_node string
  | Msg_division_by_zero
  | Msg_modulo_by_zero
  | Msg_unsupported_operator
  | Msg_type_mismatch
  | Msg_builtin_call_failed string
  | Msg_undefined_function string
  | Msg_wrong_argument_count string int int
  | Msg_unsupported_literal
  | Msg_unsupported_expression
  | Msg_unsupported_statement

record KunyuError =
  code :: KunyuErrorCode
  message :: error_message
  line :: int
  column :: int

section \<open>ast.h: the abstract syntax tree\<close>

datatype BinaryOpType =
    OP_ADD | OP_SUB | OP_MUL | OP_DIV | OP_MOD | OP_EQ | OP_NE | OP_LT | OP_LE | OP_GT | OP_GE
  | OP_AND | OP_OR

datatype UnaryOpType = OP_NEG | OP_NOT

text \<open>
  One constructor per node struct.  A child pointer that a \<open>create_\<close> function
  accepts as NULL is an option; the others are refused by the constructor function
  when NULL.  The \<open>line\<close>, \<open>column\<close> and \<open>destructor\<close> fields of \<open>AstNode\<close> are
  left out: neither the parser nor the interpreter ever reads them.  The argument
  order of \<open>BinaryExpr\<close> is that of \<open>create_binary(left, op, right)\<close>.
\<close>

datatype AstNode =
    Program "AstNode list"
  | ExpressionStmt AstNode
  | VarDeclStmt string "AstNode option" bool
  | BlockStmt "AstNode list"
  | IfStmt AstNode AstNode "AstNode option"
  | LoopStmt AstNode AstNode
  | FunctionStmt string "string list" AstNode
  | ReturnStmt "AstNode option"
  | PrintStmt AstNode
  | LiteralExpr KunyuTokenType string
  | VariableExpr string
  | BinaryExpr AstNode BinaryOpType AstNode
  | UnaryExpr UnaryOpType AstNode
  | CallExpr string "AstNode list"
  | GroupingExpr AstNode
  | AssignExpr string AstNode

section \<open>The parser\<close>

text \<open>The keywords of the language, as the UTF-8 bytes the lexer compares.\<close>

definition kw_variable :: string where
  "kw_variable = [CHR 0xE5, CHR 0x8F, CHR 0x98, CHR 0xE9, CHR 0x87, CHR 0x8F]"
definition kw_constant :: string where
  "kw_constant = [CHR 0xE5, CHR 0xB8, CHR 0xB8, CHR 0xE9, CHR 0x87, CHR 0x8F]"
definition kw_if :: string where
  "kw_if = [CHR 0xE5, CHR 0xA6, CHR 0x82, CHR 0xE6, CHR 0x9E, CHR 0x9C]"
definition kw_else :: string where
  "kw_else = [CHR 0xE5, CHR 0x90, CHR 0xA6, CHR 0xE5, CHR 0x88, CHR 0x99]"
definition kw_loop :: string where
  "kw_loop = [CHR 0xE5, CHR 0xBE, CHR 0xAA, CHR 0xE7, CHR 0x8E, CHR 0xAF]"
definition kw_function :: string where
  "kw_function = [CHR 0xE5, CHR 0x87, CHR 0xBD, CHR 0xE6, CHR 0x95, CHR 0xB0]"
definition kw_return :: string where
  "kw_return = [CHR 0xE8, CHR 0xBF, CHR 0x94, CHR 0xE5, CHR 0x9B, CHR 0x9E]"
definition kw_print :: string where
  "kw_print = [CHR 0xE8, CHR 0xBE, CHR 0x93, CHR 0xE5, CHR 0x87, CHR 0xBA]"

record ParserContext =
  tokens :: "Token list"
  current :: nat
  error :: KunyuError

definition current_token :: "ParserContext \<Rightarrow> Token option" where
  "current_token p = (if current p \<ge> length (tokens p) then None else Some (tokens p ! current p))"

definition peek_token :: "ParserContext \<Rightarrow> Token option" where
  "peek_token p =
     (if current p + 1 \<ge> length (tokens p) then None else Some (tokens p ! (current p + 1)))"

definition advance :: "ParserContext \<Rightarrow> Token option \<times> ParserContext" where
  "advance p =
     (case current_token p of
        None \<Rightarrow> (None, p)
      | Some t \<Rightarrow> (Some t, p\<lparr>current := current p + 1\<rparr>))"

definition check :: "KunyuTokenType \<Rightarrow> ParserContext \<Rightarrow> bool" where
  "check ty p = (case current_token p of None \<Rightarrow> False | Some t \<Rightarrow> tok_type t = ty)"

definition check_keyword :: "string \<Rightarrow> ParserContext \<Rightarrow> bool" where
  "check_keyword keyword p =
     (case current_token p of
        None \<Rightarrow> False
      | Some t \<Rightarrow> if tok_type t \<noteq> KUNYU_TOKEN_KEYWORD then False else tok_value t = keyword)"

definition match :: "KunyuTokenType \<Rightarrow> ParserContext \<Rightarrow> bool \<times> ParserContext" where
  "match ty p = (if check ty p then (True, snd (advance p)) else (False, p))"

definition match_keyword :: "string \<Rightarrow> ParserContext \<Rightarrow> bool \<times> ParserContext" where
  "match_keyword keyword p = (if check_keyword keyword p then (True, snd (advance p)) else (False, p))"

text \<open>The error an \<open>expect\<close> records: code, position of the current token (0 at the end), message.\<close>

definition error_at_current :: "error_message \<Rightarrow> ParserContext \<Rightarrow> ParserContext" where
  "error_at_current msg p =
     p\<lparr>error := \<lparr>code = KUNYU_ERROR_PARSER, message = msg,
                  line = (case current_token p of Some t \<Rightarrow> tok_line t | None \<Rightarrow> 0),
                  column = (case current_token p of Some t \<Rightarrow> tok_column t | None \<Rightarrow> 0)\<rparr>\<rparr>"

definition expect :: "KunyuTokenType \<Rightarrow> error_message \<Rightarrow> ParserContext \<Rightarrow> Token option \<times> ParserContext" where
  "expect ty msg p = (if check ty p then advance p else (None, error_at_current msg p))"

definition expect_keyword :: "string \<Rightarrow> error_message \<Rightarrow> ParserContext \<Rightarrow> Token option \<times> ParserContext" where
  "expect_keyword keyword msg p =
     (if check_keyword keyword p then advance p else (None, error_at_current msg p))"

text \<open>\<open>token == NULL || strcmp(token->value, s) != 0\<close>, the test after most \<open>expect\<close> calls.\<close>

definition not_token :: "Token option \<Rightarrow> string \<Rightarrow> bool" where
  "not_token t s = (case t of None \<Rightarrow> True | Some tk \<Rightarrow> tok_value tk \<noteq> s)"

text \<open>\<open>check(KUNYU_TOKEN_DELIMITER) && strcmp(current_token()->value, s) == 0\<close>.\<close>

definition at_delimiter :: "string \<Rightarrow> ParserContext \<Rightarrow> bool" where
  "at_delimiter s p =
     (case current_token p of
        None \<Rightarrow> False
      | Some t \<Rightarrow> tok_type t = KUNYU_TOKEN_DELIMITER \<and> tok_value t = s)"

definition at_operator :: "ParserContext \<Rightarrow> bool" where
  "at_operator p = (case current_token p of None \<Rightarrow> False | Some t \<Rightarrow> tok_type t = KUNYU_TOKEN_OPERATOR)"

type_synonym parse_result = "(AstNode option \<times> ParserContext) run"

text \<open>
  The parsing functions are mutually recursive in C.  Each is modelled with the
  functions it calls back into as parameters (\<open>pe\<close> for \<open>parse_expression\<close>), and a
  bound \<open>k\<close> on the iterations of its own loop or self-recursion; the recursion is
  closed below by a counter of nested calls.  Allocation is assumed to succeed, so
  the \<open>create_\<close> functions return their node.
\<close>

primrec parse_args ::
  "(ParserContext \<Rightarrow> parse_result) \<Rightarrow> nat \<Rightarrow> AstNode list \<Rightarrow> ParserContext
     \<Rightarrow> (AstNode list option \<times> ParserContext) run" where
  "parse_args pe 0 args p = Fuel_Exhausted"
| "parse_args pe (Suc k) args p =
     bind (pe p) (\<lambda>(arg, p1).
       case arg of
         None \<Rightarrow> Returns (None, p1)
       | Some a \<Rightarrow>
           if at_delimiter '')'' p1 then Returns (Some (args @ [a]), p1)
           else
             let (comma, p2) = expect KUNYU_TOKEN_DELIMITER (Msg_syntax ''expected , between arguments'') p1 in
             if not_token comma '','' then Returns (None, p2)
             else parse_args pe k (args @ [a]) p2)"

definition parse_function_call ::
  "(ParserContext \<Rightarrow> parse_result) \<Rightarrow> nat \<Rightarrow> string \<Rightarrow> ParserContext \<Rightarrow> parse_result" where
  "parse_function_call pe k name p =
     (let (lparen, p1) = expect KUNYU_TOKEN_DELIMITER (Msg_syntax ''expected ( to begin the call'') p in
      if not_token lparen ''('' then Returns (None, p1)
      else
        bind (if \<not> at_delimiter '')'' p1 then parse_args pe k [] p1 else Returns (Some [], p1))
          (\<lambda>(args, p2).
            case args of
              None \<Rightarrow> Returns (None, p2)
            | Some as \<Rightarrow>
                let (rparen, p3) = expect KUNYU_TOKEN_DELIMITER (Msg_syntax ''expected ) to end the argument list'') p2 in
                if not_token rparen '')'' then Returns (None, p3)
                else Returns (Some (CallExpr name as), p3)))"

definition parse_primary ::
  "(ParserContext \<Rightarrow> parse_result) \<Rightarrow> nat \<Rightarrow> ParserContext \<Rightarrow> parse_result" where
  "parse_primary pe k p =
     (case current_token p of
        None \<Rightarrow>
          Returns (None, p\<lparr>error := (error p)\<lparr>code := KUNYU_ERROR_PARSER,
                                               message := Msg_syntax ''expected an expression but met the end of file''\<rparr>\<rparr>)
      | Some token \<Rightarrow>
          if tok_type token = KUNYU_TOKEN_NUMBER \<or> tok_type token = KUNYU_TOKEN_STRING then
            Returns (Some (LiteralExpr (tok_type token) (tok_value token)), snd (advance p))
          else if tok_type token = KUNYU_TOKEN_IDENTIFIER then
            (let p1 = snd (advance p) in
             if at_delimiter ''('' p1 then parse_function_call pe k (tok_value token) p1
             else Returns (Some (VariableExpr (tok_value token)), p1))
          else if tok_type token = KUNYU_TOKEN_DELIMITER \<and> tok_value token = ''('' then
            bind (pe (snd (advance p))) (\<lambda>(expr, p2).
              case expr of
                None \<Rightarrow> Returns (None, p2)
              | Some e \<Rightarrow>
                  let (rparen, p3) = expect KUNYU_TOKEN_DELIMITER (Msg_syntax ''expected ) to close the grouping'') p2 in
                  if not_token rparen '')'' then Returns (None, p3)
                  else Returns (Some (GroupingExpr e), p3))
          else
            Returns (None, p\<lparr>error := \<lparr>code = KUNYU_ERROR_PARSER,
                                         message = Msg_syntax_token ''expected an expression but met'' (tok_value token),
                                         line = tok_line token, column = tok_column token\<rparr>\<rparr>))"

text \<open>The chain of \<open>strcmp\<close> tests at the head of \<open>parse_binary_expr\<close>.\<close>

definition binary_op_of :: "string \<Rightarrow> BinaryOpType option" where
  "binary_op_of s =
     (if s = ''+'' then Some OP_ADD
      else if s = ''-'' then Some OP_SUB
      else if s = ''*'' then Some OP_MUL
      else if s = ''/'' then Some OP_DIV
      else if s = ''%'' then Some OP_MOD
      else if s = ''=='' then Some OP_EQ
      else if s = ''!='' then Some OP_NE
      else if s = ''<'' then Some OP_LT
      else if s = ''<='' then Some OP_LE
      else if s = ''>'' then Some OP_GT
      else if s = ''>='' then Some OP_GE
      else if s = ''&&'' then Some OP_AND
      else if s = ''||'' then Some OP_OR
      else None)"

primrec parse_binary_expr ::
  "(ParserContext \<Rightarrow> parse_result) \<Rightarrow> nat \<Rightarrow> AstNode \<Rightarrow> ParserContext \<Rightarrow> parse_result" where
  "parse_binary_expr pe 0 left p = Fuel_Exhausted"
| "parse_binary_expr pe (Suc k) left p =
     (case advance p of
        (None, p1) \<Rightarrow> Undefined
      | (Some op, p1) \<Rightarrow>
          (case binary_op_of (tok_value op) of
             None \<Rightarrow>
               Returns (None, p1\<lparr>error := \<lparr>code = KUNYU_ERROR_PARSER,
                                            message = Msg_syntax_token ''unsupported operator'' (tok_value op),
                                            line = tok_line op, column = tok_column op\<rparr>\<rparr>)
           | Some op_type \<Rightarrow>
               bind (parse_primary pe k p1) (\<lambda>(right, p2).
                 case right of
                   None \<Rightarrow> Returns (None, p2)
                 | Some r \<Rightarrow>
                     if at_operator p2 then parse_binary_expr pe k (BinaryExpr left op_type r) p2
                     else Returns (Some (BinaryExpr left op_type r), p2))))"

definition parse_expression_body ::
  "(ParserContext \<Rightarrow> parse_result) \<Rightarrow> nat \<Rightarrow> ParserContext \<Rightarrow> parse_result" where
  "parse_expression_body pe k p =
     (if check KUNYU_TOKEN_IDENTIFIER p \<and>
         (case peek_token p of
            None \<Rightarrow> False
          | Some next \<Rightarrow> tok_type next = KUNYU_TOKEN_OPERATOR \<and> tok_value next = ''='')
      then
        bind (pe (snd (advance (snd (advance p))))) (\<lambda>(val, p3).
          case val of
            None \<Rightarrow> Returns (None, p3)
          | Some v \<Rightarrow>
              (case current_token p of
                 None \<Rightarrow> Undefined
               | Some name \<Rightarrow> Returns (Some (AssignExpr (tok_value name) v), p3)))
      else
        bind (parse_primary pe k p) (\<lambda>(expr, p1).
          case expr of
            None \<Rightarrow> Returns (None, p1)
          | Some e \<Rightarrow>
              if at_operator p1 then parse_binary_expr pe k e p1 else Returns (Some e, p1)))"

primrec parse_expression :: "nat \<Rightarrow> ParserContext \<Rightarrow> parse_result" where
  "parse_expression 0 p = Fuel_Exhausted"
| "parse_expression (Suc n) p = parse_expression_body (parse_expression n) n p"

text \<open>The loops \<open>while (match(KUNYU_TOKEN_NEWLINE)) {}\<close>: at most one iteration per remaining token.\<close>

primrec skip_newlines_loop :: "nat \<Rightarrow> ParserContext \<Rightarrow> ParserContext" where
  "skip_newlines_loop 0 p = p"
| "skip_newlines_loop (Suc k) p =
     (if check KUNYU_TOKEN_NEWLINE p then skip_newlines_loop k (snd (advance p)) else p)"

definition skip_newlines :: "ParserContext \<Rightarrow> ParserContext" where
  "skip_newlines p = skip_newlines_loop (length (tokens p) - current p) p"

definition parse_print_stmt :: "nat \<Rightarrow> ParserContext \<Rightarrow> parse_result" where
  "parse_print_stmt n p =
     (let (keyword, p1) = expect_keyword kw_print (Msg_syntax ''expected the print keyword'') p in
      if keyword = None then Returns (None, p1)
      else
        bind (parse_expression n p1) (\<lambda>(expr, p2).
          case expr of
            None \<Rightarrow> Returns (None, p2)
          | Some e \<Rightarrow>
              let (semicolon, p3) =
                    expect KUNYU_TOKEN_DELIMITER (Msg_syntax ''expected ; to end the print statement'') p2 in
              if not_token semicolon '';'' then Returns (None, p3)
              else Returns (Some (PrintStmt e), p3)))"

definition parse_var_decl :: "nat \<Rightarrow> ParserContext \<Rightarrow> parse_result" where
  "parse_var_decl n p =
     (let is_constant = check_keyword kw_constant p;
          p1 = snd (advance p);
          (name, p2) = expect KUNYU_TOKEN_IDENTIFIER (Msg_syntax ''expected a variable name'') p1 in
      case name of
        None \<Rightarrow> Returns (None, p2)
      | Some nm \<Rightarrow>
          let (equals, p3) = expect KUNYU_TOKEN_OPERATOR (Msg_syntax ''expected the = operator'') p2 in
          if not_token equals ''='' then Returns (None, p3)
          else
            bind (parse_expression n p3) (\<lambda>(initializer, p4).
              case initializer of
                None \<Rightarrow> Returns (None, p4)
              | Some i \<Rightarrow>
                  let (semicolon, p5) =
                        expect KUNYU_TOKEN_DELIMITER (Msg_syntax ''expected ; to end the declaration'') p4 in
                  if not_token semicolon '';'' then Returns (None, p5)
                  else Returns (Some (VarDeclStmt (tok_value nm) (Some i) is_constant), p5)))"

definition parse_return_stmt :: "nat \<Rightarrow> ParserContext \<Rightarrow> parse_result" where
  "parse_return_stmt n p =
     (let (keyword, p1) = expect_keyword kw_return (Msg_syntax ''expected the return keyword'') p in
      if keyword = None then Returns (None, p1)
      else
        bind (parse_expression n p1) (\<lambda>(val, p2).
          case val of
            None \<Rightarrow> Returns (None, p2)
          | Some v \<Rightarrow>
              let (semicolon, p3) =
                    expect KUNYU_TOKEN_DELIMITER (Msg_syntax ''expected ; to end the return statement'') p2 in
              if not_token semicolon '';'' then Returns (None, p3)
              else Returns (Some (ReturnStmt (Some v)), p3)))"

text \<open>\<open>parse_block\<close>, with \<open>ps\<close> for \<open>parse_statement\<close>: the statement loop, then the closing brace.\<close>

primrec parse_block_loop ::
  "(ParserContext \<Rightarrow> parse_result) \<Rightarrow> nat \<Rightarrow> AstNode list \<Rightarrow> ParserContext \<Rightarrow> parse_result" where
  "parse_block_loop ps 0 statements p = Fuel_Exhausted"
| "parse_block_loop ps (Suc k) statements p =
     (if \<not> at_delimiter ''}'' p then
        bind (ps p) (\<lambda>(stmt, p1).
          case stmt of
            None \<Rightarrow> Returns (None, p1)
          | Some s \<Rightarrow>
              let p2 = skip_newlines p1 in
              if check KUNYU_TOKEN_EOF p2 then
                Returns (None, p2\<lparr>error := (error p2)\<lparr>code := KUNYU_ERROR_PARSER,
                                                        message := Msg_syntax ''block not closed, expected }''\<rparr>\<rparr>)
              else parse_block_loop ps k (statements @ [s]) p2)
      else
        (let (rbrace, p1) = expect KUNYU_TOKEN_DELIMITER (Msg_syntax ''expected } to end the block'') p in
         if not_token rbrace ''}'' then Returns (None, p1)
         else Returns (Some (BlockStmt statements), p1)))"

definition parse_block :: "(ParserContext \<Rightarrow> parse_result) \<Rightarrow> nat \<Rightarrow> ParserContext \<Rightarrow> parse_result" where
  "parse_block ps k p = parse_block_loop ps k [] (skip_newlines p)"

text \<open>\<open>parse_if_stmt\<close>, with \<open>pb\<close> for \<open>parse_block\<close>; \<open>k\<close> bounds the chain of else-if.\<close>

primrec parse_if_stmt ::
  "(ParserContext \<Rightarrow> parse_result) \<Rightarrow> nat \<Rightarrow> nat \<Rightarrow> ParserContext \<Rightarrow> parse_result" where
  "parse_if_stmt pb n 0 p = Fuel_Exhausted"
| "parse_if_stmt pb n (Suc k) p =
     (let (if_keyword, p1) = expect_keyword kw_if (Msg_syntax ''expected the if keyword'') p in
      if if_keyword = None then Returns (None, p1)
      else
        let (lparen, p2) = expect KUNYU_TOKEN_DELIMITER (Msg_syntax ''expected ( to begin the condition'') p1 in
        if not_token lparen ''('' then Returns (None, p2)
        else
          bind (parse_expression n p2) (\<lambda>(condition, p3).
            case condition of
              None \<Rightarrow> Returns (None, p3)
            | Some c \<Rightarrow>
                let (rparen, p4) =
                      expect KUNYU_TOKEN_DELIMITER (Msg_syntax ''expected ) to end the condition'') p3 in
                if not_token rparen '')'' then Returns (None, p4)
                else
                  let (lbrace, p5) =
                        expect KUNYU_TOKEN_DELIMITER (Msg_syntax ''expected { to begin the then branch'') p4 in
                  if not_token lbrace ''{'' then Returns (None, p5)
                  else
                    bind (pb p5) (\<lambda>(then_branch, p6).
                      case then_branch of
                        None \<Rightarrow> Returns (None, p6)
                      | Some t \<Rightarrow>
                          let (has_else, p7) = match_keyword kw_else p6 in
                          if has_else then
                            (if check_keyword kw_if p7 then
                               bind (parse_if_stmt pb n k p7) (\<lambda>(else_branch, p8).
                                 case else_branch of
                                   None \<Rightarrow> Returns (None, p8)
                                 | Some e \<Rightarrow> Returns (Some (IfStmt c t (Some e)), p8))
                             else
                               let (else_lbrace, p8) =
                                     expect KUNYU_TOKEN_DELIMITER
                                       (Msg_syntax ''expected { to begin the else branch'') p7 in
                               if not_token else_lbrace ''{'' then Returns (None, p8)
                               else
                                 bind (pb p8) (\<lambda>(else_branch, p9).
                                   case else_branch of
                                     None \<Rightarrow> Returns (None, p9)
                                   | Some e \<Rightarrow> Returns (Some (IfStmt c t (Some e)), p9)))
                          else Returns (Some (IfStmt c t None), p7))))"

definition parse_loop_stmt ::
  "(ParserContext \<Rightarrow> parse_result) \<Rightarrow> nat \<Rightarrow> ParserContext \<Rightarrow> parse_result" where
  "parse_loop_stmt pb n p =
     (let (loop_keyword, p1) = expect_keyword kw_loop (Msg_syntax ''expected the loop keyword'') p in
      if loop_keyword = None then Returns (None, p1)
      else
        let (lparen, p2) =
              expect KUNYU_TOKEN_DELIMITER (Msg_syntax ''expected ( to begin the loop condition'') p1 in
        if not_token lparen ''('' then Returns (None, p2)
        else
          bind (parse_expression n p2) (\<lambda>(condition, p3).
            case condition of
              None \<Rightarrow> Returns (None, p3)
            | Some c \<Rightarrow>
                let (rparen, p4) =
                      expect KUNYU_TOKEN_DELIMITER (Msg_syntax ''expected ) to end the loop condition'') p3 in
                if not_token rparen '')'' then Returns (None, p4)
                else
                  let (lbrace, p5) =
                        expect KUNYU_TOKEN_DELIMITER (Msg_syntax ''expected { to begin the loop body'') p4 in
                  if not_token lbrace ''{'' then Returns (None, p5)
                  else
                    bind (pb p5) (\<lambda>(body, p6).
                      case body of
                        None \<Rightarrow> Returns (None, p6)
                      | Some b \<Rightarrow> Returns (Some (LoopStmt c b), p6))))"

text \<open>The parameter loop of \<open>parse_function_decl\<close>.\<close>

primrec parse_params ::
  "nat \<Rightarrow> string list \<Rightarrow> ParserContext \<Rightarrow> (string list option \<times> ParserContext) run" where
  "parse_params 0 params p = Fuel_Exhausted"
| "parse_params (Suc k) params p =
     (let (param, p1) = expect KUNYU_TOKEN_IDENTIFIER (Msg_syntax ''expected a parameter name'') p in
      case param of
        None \<Rightarrow> Returns (None, p1)
      | Some t \<Rightarrow>
          if at_delimiter '')'' p1 then Returns (Some (params @ [tok_value t]), p1)
          else
            let (comma, p2) =
                  expect KUNYU_TOKEN_DELIMITER (Msg_syntax ''expected , between parameters'') p1 in
            if not_token comma '','' then Returns (None, p2)
            else parse_params k (params @ [tok_value t]) p2)"

definition parse_function_decl ::
  "(ParserContext \<Rightarrow> parse_result) \<Rightarrow> nat \<Rightarrow> ParserContext \<Rightarrow> parse_result" where
  "parse_function_decl pb k p =
     (let (func_keyword, p1) = expect_keyword kw_function (Msg_syntax ''expected the function keyword'') p in
      if func_keyword = None then Returns (None, p1)
      else
        let (name, p2) = expect KUNYU_TOKEN_IDENTIFIER (Msg_syntax ''expected a function name'') p1 in
        case name of
          None \<Rightarrow> Returns (None, p2)
        | Some nm \<Rightarrow>
            let (lparen, p3) =
                  expect KUNYU_TOKEN_DELIMITER (Msg_syntax ''expected ( to begin the parameter list'') p2 in
            if not_token lparen ''('' then Returns (None, p3)
            else
              bind (if \<not> at_delimiter '')'' p3 then parse_params k [] p3 else Returns (Some [], p3))
                (\<lambda>(params, p4).
                  case params of
                    None \<Rightarrow> Returns (None, p4)
                  | Some ps \<Rightarrow>
                      let (rparen, p5) =
                            expect KUNYU_TOKEN_DELIMITER
                              (Msg_syntax ''expected ) to end the parameter list'') p4 in
                      if not_token rparen '')'' then Returns (None, p5)
                      else
                        let (lbrace, p6) =
                              expect KUNYU_TOKEN_DELIMITER
                                (Msg_syntax ''expected { to begin the function body'') p5 in
                        if not_token lbrace ''{'' then Returns (None, p6)
                        else
                          bind (pb p6) (\<lambda>(body, p7).
                            case body of
                              None \<Rightarrow> Returns (None, p7)
                            | Some b \<Rightarrow> Returns (Some (FunctionStmt (tok_value nm) ps b), p7))))"

text \<open>
  The last branch of \<open>parse_statement\<close>, the expression statement: \<open>match\<close>
  consumes the delimiter that follows the expression, and the \<open>strcmp\<close> with
  \<open>";"\<close> then reads the token after it (through \<open>current_token()\<close>, which is NULL
  when the delimiter was the last token).
\<close>

definition parse_expression_stmt :: "nat \<Rightarrow> ParserContext \<Rightarrow> parse_result" where
  "parse_expression_stmt n p =
     bind (parse_expression n p) (\<lambda>(expr, p1).
       case expr of
         None \<Rightarrow> Returns (None, p1)
       | Some e \<Rightarrow>
           let (matched, p2) = match KUNYU_TOKEN_DELIMITER p1 in
           if \<not> matched then
             Returns (None, error_at_current
                              (Msg_syntax ''expected ; as the end of the expression statement'') p2)
           else
             (case current_token p2 of
                None \<Rightarrow> Undefined
              | Some t \<Rightarrow>
                  if tok_value t \<noteq> '';'' then
                    Returns (None, error_at_current
                                     (Msg_syntax ''expected ; as the end of the expression statement'') p2)
                  else Returns (Some (ExpressionStmt e), snd (advance p2))))"

definition parse_statement_body ::
  "(ParserContext \<Rightarrow> parse_result) \<Rightarrow> nat \<Rightarrow> ParserContext \<Rightarrow> parse_result" where
  "parse_statement_body ps n p =
     (if check_keyword kw_print p then parse_print_stmt n p
      else if check_keyword kw_variable p \<or> check_keyword kw_constant p then parse_var_decl n p
      else if check_keyword kw_if p then parse_if_stmt (parse_block ps n) n n p
      else if check_keyword kw_loop p then parse_loop_stmt (parse_block ps n) n p
      else if check_keyword kw_function p then parse_function_decl (parse_block ps n) n p
      else if check_keyword kw_return p then parse_return_stmt n p
      else parse_expression_stmt n p)"

primrec parse_statement :: "nat \<Rightarrow> ParserContext \<Rightarrow> parse_result" where
  "parse_statement 0 p = Fuel_Exhausted"
| "parse_statement (Suc n) p = parse_statement_body (parse_statement n) n p"

text \<open>
  \<open>parse_program\<close>: a statement that comes back NULL without an error code (an
  \<open>expect\<close> that saw the right token type with another text) is skipped.
\<close>

primrec parse_program_loop :: "nat \<Rightarrow> nat \<Rightarrow> AstNode list \<Rightarrow> ParserContext \<Rightarrow> parse_result" where
  "parse_program_loop n 0 statements p = Fuel_Exhausted"
| "parse_program_loop n (Suc k) statements p =
     (if current p < length (tokens p) \<and> \<not> check KUNYU_TOKEN_EOF p then
        bind (parse_statement n p) (\<lambda>(stmt, p1).
          case stmt of
            Some s \<Rightarrow> parse_program_loop n k (statements @ [s]) (skip_newlines p1)
          | None \<Rightarrow>
              if code (error p1) \<noteq> KUNYU_OK then Returns (None, p1)
              else parse_program_loop n k statements (skip_newlines p1))
      else Returns (Some (Program statements), p))"

definition parse_program :: "nat \<Rightarrow> ParserContext \<Rightarrow> parse_result" where
  "parse_program n p = parse_program_loop n n [] (skip_newlines p)"

definition parser_init :: "Token list \<Rightarrow> ParserContext" where
  "parser_init toks =
     \<lparr>tokens = toks, current = 0,
      error = \<lparr>code = KUNYU_OK, message = Msg_none, line = 0, column = 0\<rparr>\<rparr>"

text \<open>\<open>parser_parse\<close>; \<open>p0\<close> is the parser's state before the call, kept when the token array is empty.\<close>

definition parser_parse :: "nat \<Rightarrow> Token list \<Rightarrow> ParserContext \<Rightarrow> parse_result" where
  "parser_parse n toks p0 = (if toks = [] then Returns (None, p0) else parse_program n (parser_init toks))"

section \<open>Numbers and their text\<close>

text \<open>
  A \<open>double\<close> is modelled as an exact rational number: rounding, infinities and
  NaN are outside the model.  \<open>atof\<close> is modelled on the texts the lexer produces
  for a number token (decimal digits with at most one point, no sign, no
  exponent); \<open>snprintf\<close> with \<open>%.0f\<close> and \<open>%g\<close> follows the C standard for the
  default precision 6, rounding to nearest with ties to even.
\<close>

definition is_digit :: "char \<Rightarrow> bool" where
  "is_digit c = (48 \<le> (of_char c :: int) \<and> (of_char c :: int) \<le> 57)"

definition decimal_value :: "string \<Rightarrow> int" where
  "decimal_value s = foldl (\<lambda>a c. 10 * a + (of_char c - 48)) 0 s"

definition atof :: "string \<Rightarrow> rat" where
  "atof s =
     (let ip = takeWhile is_digit s;
          rest = dropWhile is_digit s;
          fp = (case rest of [] \<Rightarrow> [] | c # r \<Rightarrow> if c = CHR ''.'' then takeWhile is_digit r else [])
      in of_int (decimal_value ip) + of_int (decimal_value fp) / 10 ^ length fp)"

text \<open>The decimal digits of a natural number, given as an \<open>int\<close>.\<close>

function decimal :: "int \<Rightarrow> string" where
  "decimal n = (if n < 10 then [char_of (48 + n)] else decimal (n div 10) @ [char_of (48 + n mod 10)])"
  by pat_completeness auto
termination
  by (relation "measure nat") auto

declare decimal.simps [simp del]

definition c_trunc :: "rat \<Rightarrow> int" where
  "c_trunc v = (if 0 \<le> v then \<lfloor>v\<rfloor> else \<lceil>v\<rceil>)"

text \<open>\<open>modf(v, &intpart) == 0.0\<close>\<close>

definition has_no_fraction :: "rat \<Rightarrow> bool" where
  "has_no_fraction v = (v = of_int (c_trunc v))"

definition round_half_even :: "rat \<Rightarrow> int" where
  "round_half_even v =
     (let f = \<lfloor>v\<rfloor>; d = v - of_int f in
      if d < 1 / 2 then f else if 1 / 2 < d then f + 1 else if even f then f else f + 1)"

definition fmt_0f :: "rat \<Rightarrow> string" where
  "fmt_0f v = (if v < 0 then ''-'' else []) @ decimal (round_half_even \<bar>v\<bar>)"

definition pow10 :: "int \<Rightarrow> rat" where
  "pow10 e = (if 0 \<le> e then 10 ^ nat e else 1 / 10 ^ nat (- e))"

primrec negative_exponent :: "nat \<Rightarrow> rat \<Rightarrow> nat \<Rightarrow> nat" where
  "negative_exponent 0 a k = k"
| "negative_exponent (Suc f) a k = (if 1 \<le> a * 10 ^ k then k else negative_exponent f a (Suc k))"

text \<open>
  For \<open>0 < a\<close>, the \<open>X\<close> with \<open>10 ^ X \<le> a < 10 ^ (X + 1)\<close>: from the number of
  digits of the integer part, or, below 1, by a search that the number of digits
  of the denominator bounds.
\<close>

definition decimal_exponent :: "rat \<Rightarrow> int" where
  "decimal_exponent a =
     (if 1 \<le> a then int (length (decimal \<lfloor>a\<rfloor>)) - 1
      else - int (negative_exponent (length (decimal (snd (quotient_of a)))) a 1))"

definition strip_zeros :: "string \<Rightarrow> string" where
  "strip_zeros s = rev (dropWhile (\<lambda>c. c = CHR ''0'') (rev s))"

definition fixed_notation :: "int \<Rightarrow> string \<Rightarrow> string" where
  "fixed_notation X ds =
     (if 0 \<le> X then
        (let fp = strip_zeros (drop (nat X + 1) ds) in
         take (nat X + 1) ds @ (if fp = [] then [] else ''.'' @ fp))
      else ''0.'' @ replicate (nat (- X - 1)) (CHR ''0'') @ strip_zeros ds)"

definition exponent_notation :: "int \<Rightarrow> string \<Rightarrow> string" where
  "exponent_notation X ds =
     (let fp = strip_zeros (drop 1 ds); e = decimal \<bar>X\<bar> in
      take 1 ds @ (if fp = [] then [] else ''.'' @ fp) @ ''e'' @ (if X < 0 then ''-'' else ''+'')
        @ (if length e < 2 then ''0'' @ e else e))"

definition fmt_g :: "rat \<Rightarrow> string" where
  "fmt_g v =
     (if v = 0 then ''0''
      else
        let a = \<bar>v\<bar>;
            X0 = decimal_exponent a;
            m0 = round_half_even (a / pow10 (X0 - 5));
            X = (if 1000000 \<le> m0 then X0 + 1 else X0);
            ds = decimal (if 1000000 \<le> m0 then m0 div 10 else m0)
        in (if v < 0 then ''-'' else [])
             @ (if - 4 \<le> X \<and> X < 6 then fixed_notation X ds else exponent_notation X ds))"

text \<open>The conversions \<open>(int)\<close> and \<open>(size_t)\<close> of a double, undefined out of range, and C's \<open>%\<close> on \<open>int\<close>.\<close>

definition c_int_of_double :: "rat \<Rightarrow> int option" where
  "c_int_of_double v = (if - (2 ^ 31) \<le> c_trunc v \<and> c_trunc v < 2 ^ 31 then Some (c_trunc v) else None)"

definition c_size_t_of_double :: "rat \<Rightarrow> nat option" where
  "c_size_t_of_double v = (if 0 \<le> c_trunc v \<and> c_trunc v < 2 ^ 64 then Some (nat (c_trunc v)) else None)"

definition c_int_rem :: "int \<Rightarrow> int \<Rightarrow> int option" where
  "c_int_rem a b =
     (if b = 0 then None
      else if a = - (2 ^ 31) \<and> b = - 1 then None
      else Some (sgn a * (\<bar>a\<bar> mod \<bar>b\<bar>)))"

section \<open>The interpreter: values and state\<close>

text \<open>
  The interpreter observes an object through its type tag, the value of a number
  and the bytes of a string only, and numbers and strings never change after
  their construction.  A \<open>PyObject*\<close> that the interpreter holds is therefore
  modelled by that content; a list or a dictionary is a reference into the table
  \<open>containers\<close> of the state, so that aliases share their elements.  The
  reference counts, which decide nothing the interpreter computes, are modelled
  apart, with the object system itself (last section of the definitions).
  NULL is \<open>None\<close>.
\<close>

datatype PyObject =
    PyNumberObject rat
  | PyStringObject string
  | PyListObject nat
  | PyDictObject nat

datatype container = ListItems "PyObject list" | DictItems "(PyObject \<times> PyObject) list"

record VariableEntry =
  var_name :: string
  is_constant :: bool
  var_value :: "PyObject option"

record FunctionEntry =
  func_name :: string
  params :: "string list"
  body :: AstNode

text \<open>
  \<open>param_count\<close> of a function entry is the length of \<open>params\<close>, and
  \<open>arg_count\<close> of a call is the length of its \<open>args\<close>.
\<close>

text \<open>
  The function pointer of a registered builtin is modelled by the name of the C
  function it points to; \<open>call_native\<close> below is the call through it.
\<close>

datatype native =
    Builtin_create_list | Builtin_list_append | Builtin_list_length | Builtin_list_get
  | Builtin_list_set | Builtin_create_dict | Builtin_dict_set | Builtin_dict_get | Builtin_dict_size

type_synonym native_function =
  "PyObject list \<Rightarrow> container list \<Rightarrow> (PyObject option \<times> container list) run"

record BuiltinFunc =
  builtin_name :: string
  func :: native
  arg_count :: int

text \<open>
  The statics of the interpreter: \<open>interpreter.error\<close>, \<open>interpreter.has_return\<close>,
  \<open>interpreter.return_value\<close>, \<open>current_scope\<close> (the chain of scopes, innermost
  first; each scope is its list of variables, newest first), \<open>function_table\<close>,
  and \<open>builtin_funcs\<close> of the builtins; with them the containers and the lines
  written to the standard output.
\<close>

record Interp =
  interpreter_error :: KunyuError
  has_return :: bool
  return_value :: "PyObject option"
  current_scope :: "VariableEntry list list"
  function_table :: "FunctionEntry list"
  builtin_funcs :: "BuiltinFunc list"
  containers :: "container list"
  printed :: "string list"

section \<open>The builtins\<close>

definition list_items :: "container list \<Rightarrow> nat \<Rightarrow> PyObject list option" where
  "list_items cs a =
     (if a < length cs then (case cs ! a of ListItems xs \<Rightarrow> Some xs | DictItems _ \<Rightarrow> None) else None)"

definition dict_items :: "container list \<Rightarrow> nat \<Rightarrow> (PyObject \<times> PyObject) list option" where
  "dict_items cs a =
     (if a < length cs then (case cs ! a of DictItems xs \<Rightarrow> Some xs | ListItems _ \<Rightarrow> None) else None)"

text \<open>\<open>py_dict_find_index\<close>: only a string key matches, and only a string key.\<close>

fun py_dict_find_index :: "(PyObject \<times> PyObject) list \<Rightarrow> PyObject \<Rightarrow> nat option" where
  "py_dict_find_index [] key = None"
| "py_dict_find_index ((k, v) # items) key =
     (case (key, k) of
        (PyStringObject s, PyStringObject t) \<Rightarrow>
          if s = t then Some 0 else map_option Suc (py_dict_find_index items key)
      | _ \<Rightarrow> map_option Suc (py_dict_find_index items key))"

definition builtin_create_list :: native_function where
  "builtin_create_list args cs = Returns (Some (PyListObject (length cs)), cs @ [ListItems []])"

definition builtin_list_append :: native_function where
  "builtin_list_append args cs =
     (case args of
        [PyListObject a, item] \<Rightarrow>
          (case list_items cs a of
             None \<Rightarrow> Undefined
           | Some xs \<Rightarrow> Returns (Some (PyNumberObject 1), cs[a := ListItems (xs @ [item])]))
      | _ \<Rightarrow> Returns (None, cs))"

definition builtin_list_length :: native_function where
  "builtin_list_length args cs =
     (case args of
        [PyListObject a] \<Rightarrow>
          (case list_items cs a of
             None \<Rightarrow> Undefined
           | Some xs \<Rightarrow> Returns (Some (PyNumberObject (of_nat (length xs))), cs))
      | _ \<Rightarrow> Returns (None, cs))"

definition builtin_list_get :: native_function where
  "builtin_list_get args cs =
     (case args of
        [PyListObject a, PyNumberObject i] \<Rightarrow>
          (case (list_items cs a, c_size_t_of_double i) of
             (Some xs, Some index) \<Rightarrow>
               if length xs \<le> index then Returns (None, cs) else Returns (Some (xs ! index), cs)
           | _ \<Rightarrow> Undefined)
      | _ \<Rightarrow> Returns (None, cs))"

definition builtin_list_set :: native_function where
  "builtin_list_set args cs =
     (case args of
        [PyListObject a, PyNumberObject i, val] \<Rightarrow>
          (case (list_items cs a, c_size_t_of_double i) of
             (Some xs, Some index) \<Rightarrow>
               if length xs \<le> index then Returns (Some (PyNumberObject 0), cs)
               else Returns (Some (PyNumberObject 1), cs[a := ListItems (xs[index := val])])
           | _ \<Rightarrow> Undefined)
      | _ \<Rightarrow> Returns (None, cs))"

definition builtin_create_dict :: native_function where
  "builtin_create_dict args cs = Returns (Some (PyDictObject (length cs)), cs @ [DictItems []])"

definition builtin_dict_set :: native_function where
  "builtin_dict_set args cs =
     (case args of
        [PyDictObject a, key, val] \<Rightarrow>
          (case dict_items cs a of
             None \<Rightarrow> Undefined
           | Some items \<Rightarrow>
               (case py_dict_find_index items key of
                  Some index \<Rightarrow>
                    Returns (Some (PyNumberObject 1),
                             cs[a := DictItems (items[index := (fst (items ! index), val)])])
                | None \<Rightarrow> Returns (Some (PyNumberObject 1), cs[a := DictItems (items @ [(key, val)])])))
      | _ \<Rightarrow> Returns (None, cs))"

definition builtin_dict_get :: native_function where
  "builtin_dict_get args cs =
     (case args of
        [PyDictObject a, key] \<Rightarrow>
          (case dict_items cs a of
             None \<Rightarrow> Undefined
           | Some items \<Rightarrow>
               (case py_dict_find_index items key of
                  Some index \<Rightarrow> Returns (Some (snd (items ! index)), cs)
                | None \<Rightarrow> Returns (None, cs)))
      | _ \<Rightarrow> Returns (None, cs))"

definition builtin_dict_size :: native_function where
  "builtin_dict_size args cs =
     (case args of
        [PyDictObject a] \<Rightarrow>
          (case dict_items cs a of
             None \<Rightarrow> Undefined
           | Some items \<Rightarrow> Returns (Some (PyNumberObject (of_nat (length items))), cs))
      | _ \<Rightarrow> Returns (None, cs))"

definition call_native :: "native \<Rightarrow> native_function" where
  "call_native f =
     (case f of
        Builtin_create_list \<Rightarrow> builtin_create_list
      | Builtin_list_append \<Rightarrow> builtin_list_append
      | Builtin_list_length \<Rightarrow> builtin_list_length
      | Builtin_list_get \<Rightarrow> builtin_list_get
      | Builtin_list_set \<Rightarrow> builtin_list_set
      | Builtin_create_dict \<Rightarrow> builtin_create_dict
      | Builtin_dict_set \<Rightarrow> builtin_dict_set
      | Builtin_dict_get \<Rightarrow> builtin_dict_get
      | Builtin_dict_size \<Rightarrow> builtin_dict_size)"

definition register_builtin :: "string \<Rightarrow> native \<Rightarrow> int \<Rightarrow> BuiltinFunc list \<Rightarrow> BuiltinFunc list" where
  "register_builtin name f n fs = \<lparr>builtin_name = name, func = f, arg_count = n\<rparr> # fs"

definition find_builtin :: "string \<Rightarrow> BuiltinFunc list \<Rightarrow> BuiltinFunc option" where
  "find_builtin name fs = find (\<lambda>f. builtin_name f = name) fs"

definition builtins_is_builtin :: "string \<Rightarrow> BuiltinFunc list \<Rightarrow> bool" where
  "builtins_is_builtin name fs = (find_builtin name fs \<noteq> None)"

definition builtins_call ::
  "string \<Rightarrow> PyObject list \<Rightarrow> BuiltinFunc list \<Rightarrow> container list \<Rightarrow> (PyObject option \<times> container list) run" where
  "builtins_call name args fs cs =
     (case find_builtin name fs of
        None \<Rightarrow> Returns (None, cs)
      | Some f \<Rightarrow>
          if 0 \<le> arg_count f \<and> arg_count f \<noteq> int (length args) then Returns (None, cs)
          else call_native (func f) args cs)"

text \<open>The names under which \<open>builtins_init\<close> registers the nine builtins, as UTF-8 bytes.\<close>

definition name_create_list :: string where
  "name_create_list = [CHR 0xE5, CHR 0x88, CHR 0x9B, CHR 0xE5, CHR 0xBB, CHR 0xBA, CHR 0xE5, CHR 0x88, CHR 0x97, CHR 0xE8, CHR 0xA1, CHR 0xA8]"
definition name_list_append :: string where
  "name_list_append = [CHR 0xE5, CHR 0x88, CHR 0x97, CHR 0xE8, CHR 0xA1, CHR 0xA8, CHR 0xE6, CHR 0xB7, CHR 0xBB, CHR 0xE5, CHR 0x8A, CHR 0xA0]"
definition name_list_length :: string where
  "name_list_length = [CHR 0xE5, CHR 0x88, CHR 0x97, CHR 0xE8, CHR 0xA1, CHR 0xA8, CHR 0xE9, CHR 0x95, CHR 0xBF, CHR 0xE5, CHR 0xBA, CHR 0xA6]"
definition name_list_get :: string where
  "name_list_get = [CHR 0xE5, CHR 0x88, CHR 0x97, CHR 0xE8, CHR 0xA1, CHR 0xA8, CHR 0xE8, CHR 0x8E, CHR 0xB7, CHR 0xE5, CHR 0x8F, CHR 0x96]"
definition name_list_set :: string where
  "name_list_set = [CHR 0xE5, CHR 0x88, CHR 0x97, CHR 0xE8, CHR 0xA1, CHR 0xA8, CHR 0xE8, CHR 0xAE, CHR 0xBE, CHR 0xE7, CHR 0xBD, CHR 0xAE]"
definition name_create_dict :: string where
  "name_create_dict = [CHR 0xE5, CHR 0x88, CHR 0x9B, CHR 0xE5, CHR 0xBB, CHR 0xBA, CHR 0xE5, CHR 0xAD, CHR 0x97, CHR 0xE5, CHR 0x85, CHR 0xB8]"
definition name_dict_set :: string where
  "name_dict_set = [CHR 0xE5, CHR 0xAD, CHR 0x97, CHR 0xE5, CHR 0x85, CHR 0xB8, CHR 0xE8, CHR 0xAE, CHR 0xBE, CHR 0xE7, CHR 0xBD, CHR 0xAE]"
definition name_dict_get :: string where
  "name_dict_get = [CHR 0xE5, CHR 0xAD, CHR 0x97, CHR 0xE5, CHR 0x85, CHR 0xB8, CHR 0xE8, CHR 0x8E, CHR 0xB7, CHR 0xE5, CHR 0x8F, CHR 0x96]"
definition name_dict_size :: string where
  "name_dict_size = [CHR 0xE5, CHR 0xAD, CHR 0x97, CHR 0xE5, CHR 0x85, CHR 0xB8, CHR 0xE5, CHR 0xA4, CHR 0xA7, CHR 0xE5, CHR 0xB0, CHR 0x8F]"

definition builtins_init :: "BuiltinFunc list \<Rightarrow> BuiltinFunc list" where
  "builtins_init fs =
     register_builtin name_dict_size Builtin_dict_size 1
      (register_builtin name_dict_get Builtin_dict_get 2
       (register_builtin name_dict_set Builtin_dict_set 3
        (register_builtin name_create_dict Builtin_create_dict 0
         (register_builtin name_list_set Builtin_list_set 3
          (register_builtin name_list_get Builtin_list_get 2
           (register_builtin name_list_length Builtin_list_length 1
            (register_builtin name_list_append Builtin_list_append 2
             (register_builtin name_create_list Builtin_create_list 0 fs))))))))"

section \<open>The interpreter: scopes, variables, functions\<close>

text \<open>
  Allocation is assumed to succeed: the branches for a failed \<open>malloc\<close> or
  \<open>strdup\<close> are not modelled.  Every error site of the interpreter assigns
  \<open>interpreter.error.code\<close> and prints into \<open>interpreter.error.message\<close>, and
  nothing else: that is \<open>set_error\<close>.
\<close>

definition set_error :: "KunyuErrorCode \<Rightarrow> error_message \<Rightarrow> Interp \<Rightarrow> Interp" where
  "set_error c m st = st\<lparr>interpreter_error := (interpreter_error st)\<lparr>code := c, message := m\<rparr>\<rparr>"

definition push_scope :: "Interp \<Rightarrow> Interp" where
  "push_scope st = st\<lparr>current_scope := [] # current_scope st\<rparr>"

definition pop_scope :: "Interp \<Rightarrow> Interp" where
  "pop_scope st =
     (case current_scope st of
        [] \<Rightarrow> st
      | scope # parent \<Rightarrow> st\<lparr>current_scope := parent\<rparr>)"

definition find_variable_in_scope :: "string \<Rightarrow> VariableEntry list \<Rightarrow> VariableEntry option" where
  "find_variable_in_scope name scope = find (\<lambda>entry. var_name entry = name) scope"

fun find_variable :: "string \<Rightarrow> VariableEntry list list \<Rightarrow> VariableEntry option" where
  "find_variable name [] = None"
| "find_variable name (scope # parent) =
     (case find_variable_in_scope name scope of
        Some entry \<Rightarrow> Some entry
      | None \<Rightarrow> find_variable name parent)"

definition find_function :: "string \<Rightarrow> FunctionEntry list \<Rightarrow> FunctionEntry option" where
  "find_function name table = find (\<lambda>entry. func_name entry = name) table"

text \<open>
  \<open>define_variable\<close> reads \<open>current_scope->variables\<close> without a test for NULL.
\<close>

definition define_variable :: "string \<Rightarrow> PyObject option \<Rightarrow> bool \<Rightarrow> Interp \<Rightarrow> (bool \<times> Interp) run" where
  "define_variable name val is_const st =
     (case current_scope st of
        [] \<Rightarrow> Undefined
      | scope # parent \<Rightarrow>
          if find_variable_in_scope name scope \<noteq> None then
            Returns (False, set_error KUNYU_ERROR_RUNTIME (Msg_variable_already_defined name) st)
          else
            Returns (True, st\<lparr>current_scope :=
              (\<lparr>var_name = name, is_constant = is_const, var_value = val\<rparr> # scope) # parent\<rparr>))"

definition define_function :: "string \<Rightarrow> string list \<Rightarrow> AstNode \<Rightarrow> Interp \<Rightarrow> bool \<times> Interp" where
  "define_function name ps b st =
     (if find_function name (function_table st) \<noteq> None then
        (False, set_error KUNYU_ERROR_RUNTIME (Msg_function_already_defined name) st)
      else
        (True, st\<lparr>function_table := \<lparr>func_name = name, params = ps, body = b\<rparr> # function_table st\<rparr>))"

definition get_variable :: "string \<Rightarrow> Interp \<Rightarrow> PyObject option \<times> Interp" where
  "get_variable name st =
     (case find_variable name (current_scope st) of
        None \<Rightarrow> (None, set_error KUNYU_ERROR_RUNTIME (Msg_undefined_variable name) st)
      | Some entry \<Rightarrow> (var_value entry, st))"

text \<open>The store through the entry that \<open>find_variable\<close> returned: the first match of the innermost scope that has one.\<close>

fun assign_in_scope :: "string \<Rightarrow> PyObject option \<Rightarrow> VariableEntry list \<Rightarrow> VariableEntry list" where
  "assign_in_scope name val [] = []"
| "assign_in_scope name val (entry # rest) =
     (if var_name entry = name then entry\<lparr>var_value := val\<rparr> # rest
      else entry # assign_in_scope name val rest)"

fun assign_entry :: "string \<Rightarrow> PyObject option \<Rightarrow> VariableEntry list list \<Rightarrow> VariableEntry list list" where
  "assign_entry name val [] = []"
| "assign_entry name val (scope # parent) =
     (if find_variable_in_scope name scope \<noteq> None then assign_in_scope name val scope # parent
      else scope # assign_entry name val parent)"

definition set_variable :: "string \<Rightarrow> PyObject option \<Rightarrow> Interp \<Rightarrow> bool \<times> Interp" where
  "set_variable name val st =
     (case find_variable name (current_scope st) of
        None \<Rightarrow> (False, set_error KUNYU_ERROR_RUNTIME (Msg_undefined_variable name) st)
      | Some entry \<Rightarrow>
          if is_constant entry then
            (False, set_error KUNYU_ERROR_RUNTIME (Msg_cannot_modify_constant name) st)
          else (True, st\<lparr>current_scope := assign_entry name val (current_scope st)\<rparr>))"

definition is_truthy :: "PyObject option \<Rightarrow> bool" where
  "is_truthy obj =
     (case obj of
        None \<Rightarrow> False
      | Some (PyNumberObject v) \<Rightarrow> v \<noteq> 0
      | Some (PyStringObject s) \<Rightarrow> 0 < length s
      | Some _ \<Rightarrow> True)"

definition object_text :: string where
  "object_text = [CHR 0x5B, CHR 0xE5, CHR 0xAF, CHR 0xB9, CHR 0xE8, CHR 0xB1, CHR 0xA1, CHR 0x5D]"

text \<open>\<open>object_to_string\<close>; the number is printed into a buffer of 256 bytes.\<close>

definition object_to_string :: "PyObject option \<Rightarrow> string" where
  "object_to_string obj =
     (case obj of
        None \<Rightarrow> ''null''
      | Some (PyNumberObject v) \<Rightarrow>
          if has_no_fraction v then take 255 (fmt_0f v) else take 255 (fmt_g v)
      | Some (PyStringObject s) \<Rightarrow> s
      | Some _ \<Rightarrow> object_text)"

section \<open>The interpreter: expressions and statements\<close>

type_synonym eval_result = "(PyObject option \<times> Interp) run"
type_synonym exec_result = "(bool \<times> Interp) run"

text \<open>
  \<open>eval_expression\<close> and \<open>execute_statement\<close> are mutually recursive with the
  functions below.  Each of those is modelled with \<open>ev\<close> for \<open>eval_expression\<close>
  and \<open>ex\<close> for \<open>execute_statement\<close> as parameters; the recursion is closed by a
  counter of nested calls, which also bounds the iterations of a loop statement.
\<close>

definition eval_literal_expr :: "KunyuTokenType \<Rightarrow> string \<Rightarrow> Interp \<Rightarrow> PyObject option \<times> Interp" where
  "eval_literal_expr token_type val st =
     (if token_type = KUNYU_TOKEN_NUMBER then (Some (PyNumberObject (atof val)), st)
      else if token_type = KUNYU_TOKEN_STRING then (Some (PyStringObject val), st)
      else (None, set_error KUNYU_ERROR_RUNTIME Msg_unsupported_literal st))"

definition eval_variable_expr :: "string \<Rightarrow> Interp \<Rightarrow> PyObject option \<times> Interp" where
  "eval_variable_expr name st = get_variable name st"

definition is_string :: "PyObject \<Rightarrow> bool" where
  "is_string obj = (case obj of PyStringObject s \<Rightarrow> True | _ \<Rightarrow> False)"

definition number_result :: "rat \<Rightarrow> Interp \<Rightarrow> eval_result" where
  "number_result v st = Returns (Some (PyNumberObject v), st)"

definition truth_value :: "bool \<Rightarrow> rat" where
  "truth_value b = (if b then 1 else 0)"

text \<open>
  The part of \<open>eval_binary_expr\<close> that follows the evaluation of the two operands:
  \<open>left\<close> and \<open>right\<close> are their values.
\<close>

definition binary_operation :: "BinaryOpType \<Rightarrow> PyObject \<Rightarrow> PyObject \<Rightarrow> Interp \<Rightarrow> eval_result" where
  "binary_operation op left right st =
     (if op = OP_ADD \<and> (is_string left \<or> is_string right) then
        Returns (Some (PyStringObject (object_to_string (Some left) @ object_to_string (Some right))), st)
      else
        (case (left, right) of
           (PyNumberObject a, PyNumberObject b) \<Rightarrow>
             (case op of
                OP_ADD \<Rightarrow> number_result (a + b) st
              | OP_SUB \<Rightarrow> number_result (a - b) st
              | OP_MUL \<Rightarrow> number_result (a * b) st
              | OP_DIV \<Rightarrow>
                  if b = 0 then Returns (None, set_error KUNYU_ERROR_RUNTIME Msg_division_by_zero st)
                  else number_result (a / b) st
              | OP_MOD \<Rightarrow>
                  if b = 0 then Returns (None, set_error KUNYU_ERROR_RUNTIME Msg_modulo_by_zero st)
                  else
                    (case (c_int_of_double a, c_int_of_double b) of
                       (Some x, Some y) \<Rightarrow>
                         (case c_int_rem x y of
                            None \<Rightarrow> Undefined
                          | Some r \<Rightarrow> number_result (of_int r) st)
                     | _ \<Rightarrow> Undefined)
              | OP_EQ \<Rightarrow> number_result (truth_value (a = b)) st
              | OP_NE \<Rightarrow> number_result (truth_value (a \<noteq> b)) st
              | OP_LT \<Rightarrow> number_result (truth_value (a < b)) st
              | OP_LE \<Rightarrow> number_result (truth_value (a \<le> b)) st
              | OP_GT \<Rightarrow> number_result (truth_value (a > b)) st
              | OP_GE \<Rightarrow> number_result (truth_value (a \<ge> b)) st
              | _ \<Rightarrow> Returns (None, set_error KUNYU_ERROR_RUNTIME Msg_unsupported_operator st))
         | _ \<Rightarrow> Returns (None, set_error KUNYU_ERROR_RUNTIME Msg_type_mismatch st)))"

definition eval_binary_expr ::
  "(AstNode \<Rightarrow> Interp \<Rightarrow> eval_result) \<Rightarrow> AstNode \<Rightarrow> BinaryOpType \<Rightarrow> AstNode \<Rightarrow> Interp \<Rightarrow> eval_result" where
  "eval_binary_expr ev left_expr op right_expr st =
     bind (ev left_expr st) (\<lambda>(left, st1).
       case left of
         None \<Rightarrow> Returns (None, st1)
       | Some l \<Rightarrow>
           bind (ev right_expr st1) (\<lambda>(right, st2).
             case right of
               None \<Rightarrow> Returns (None, st2)
             | Some r \<Rightarrow> binary_operation op l r st2))"

text \<open>The argument loop of a call to a builtin.\<close>

primrec eval_arguments ::
  "(AstNode \<Rightarrow> Interp \<Rightarrow> eval_result) \<Rightarrow> AstNode list \<Rightarrow> PyObject list \<Rightarrow> Interp
     \<Rightarrow> (PyObject list option \<times> Interp) run" where
  "eval_arguments ev [] vals st = Returns (Some vals, st)"
| "eval_arguments ev (arg # rest) vals st =
     bind (ev arg st) (\<lambda>(v, st1).
       case v of
         None \<Rightarrow> Returns (None, st1)
       | Some x \<Rightarrow> eval_arguments ev rest (vals @ [x]) st1)"

text \<open>
  The loop of \<open>eval_call_expr\<close> that binds the parameters in the scope just pushed:
  each argument is evaluated there, after the parameters before it are bound.  On a
  failure the scope is popped.
\<close>

primrec bind_parameters ::
  "(AstNode \<Rightarrow> Interp \<Rightarrow> eval_result) \<Rightarrow> AstNode list \<Rightarrow> string list \<Rightarrow> Interp \<Rightarrow> exec_result" where
  "bind_parameters ev [] ps st = Returns (True, st)"
| "bind_parameters ev (arg # rest) ps st =
     bind (ev arg st) (\<lambda>(arg_value, st1).
       case arg_value of
         None \<Rightarrow> Returns (False, pop_scope st1)
       | Some v \<Rightarrow>
           (case ps of
              [] \<Rightarrow> Undefined
            | p # ps' \<Rightarrow>
                bind (define_variable p (Some v) False st1) (\<lambda>(result, st2).
                  if \<not> result then Returns (False, pop_scope st2)
                  else bind_parameters ev rest ps' st2)))"

definition clear_return :: "Interp \<Rightarrow> Interp" where
  "clear_return st = st\<lparr>has_return := False, return_value := None\<rparr>"

definition eval_call_expr ::
  "(AstNode \<Rightarrow> Interp \<Rightarrow> eval_result) \<Rightarrow> (AstNode \<Rightarrow> Interp \<Rightarrow> exec_result)
     \<Rightarrow> string \<Rightarrow> AstNode list \<Rightarrow> Interp \<Rightarrow> eval_result" where
  "eval_call_expr ev ex name args st =
     (if builtins_is_builtin name (builtin_funcs st) then
        bind (eval_arguments ev args [] st) (\<lambda>(vals, st1).
          case vals of
            None \<Rightarrow> Returns (None, st1)
          | Some vs \<Rightarrow>
              bind (builtins_call name vs (builtin_funcs st1) (containers st1)) (\<lambda>(result, cs).
                case result of
                  None \<Rightarrow>
                    Returns (None, set_error KUNYU_ERROR_RUNTIME (Msg_builtin_call_failed name)
                                     (st1\<lparr>containers := cs\<rparr>))
                | Some r \<Rightarrow> Returns (Some r, st1\<lparr>containers := cs\<rparr>)))
      else
        (case find_function name (function_table st) of
           None \<Rightarrow> Returns (None, set_error KUNYU_ERROR_RUNTIME (Msg_undefined_function name) st)
         | Some f \<Rightarrow>
             if length args \<noteq> length (params f) then
               Returns (None, set_error KUNYU_ERROR_RUNTIME
                                (Msg_wrong_argument_count name (int (length (params f))) (int (length args))) st)
             else
               bind (bind_parameters ev args (params f) (push_scope st)) (\<lambda>(bound, st1).
                 if \<not> bound then Returns (None, st1)
                 else
                   bind (ex (body f) (clear_return st1)) (\<lambda>(success, st2).
                     let result = (if success \<and> has_return st2 then return_value st2 else None);
                         st3 = clear_return (pop_scope st2)
                     in if \<not> success then Returns (None, st3) else Returns (result, st3)))))"

definition eval_assign_expr ::
  "(AstNode \<Rightarrow> Interp \<Rightarrow> eval_result) \<Rightarrow> string \<Rightarrow> AstNode \<Rightarrow> Interp \<Rightarrow> eval_result" where
  "eval_assign_expr ev name val_expr st =
     bind (ev val_expr st) (\<lambda>(val, st1).
       case val of
         None \<Rightarrow> Returns (None, st1)
       | Some v \<Rightarrow>
           (case set_variable name (Some v) st1 of
              (False, st2) \<Rightarrow> Returns (None, st2)
            | (True, st2) \<Rightarrow> Returns (Some v, st2)))"

definition eval_expression_body ::
  "(AstNode \<Rightarrow> Interp \<Rightarrow> eval_result) \<Rightarrow> (AstNode \<Rightarrow> Interp \<Rightarrow> exec_result)
     \<Rightarrow> AstNode \<Rightarrow> Interp \<Rightarrow> eval_result" where
  "eval_expression_body ev ex node st =
     (case node of
        LiteralExpr token_type val \<Rightarrow> Returns (eval_literal_expr token_type val st)
      | VariableExpr name \<Rightarrow> Returns (eval_variable_expr name st)
      | BinaryExpr left op right \<Rightarrow> eval_binary_expr ev left op right st
      | GroupingExpr expr \<Rightarrow> ev expr st
      | CallExpr name args \<Rightarrow> eval_call_expr ev ex name args st
      | AssignExpr name val \<Rightarrow> eval_assign_expr ev name val st
      | _ \<Rightarrow> Returns (None, set_error KUNYU_ERROR_RUNTIME Msg_unsupported_expression st))"

definition exec_print_stmt :: "(AstNode \<Rightarrow> Interp \<Rightarrow> eval_result) \<Rightarrow> AstNode \<Rightarrow> Interp \<Rightarrow> exec_result" where
  "exec_print_stmt ev node st =
     (case node of
        PrintStmt val_expr \<Rightarrow>
          bind (ev val_expr st) (\<lambda>(val, st1).
            case val of
              None \<Rightarrow> Returns (False, st1)
            | Some v \<Rightarrow> Returns (True, st1\<lparr>printed := printed st1 @ [object_to_string (Some v)]\<rparr>))
      | _ \<Rightarrow> Returns (False, set_error KUNYU_ERROR_RUNTIME (Msg_expected_node ''print statement'') st))"

definition exec_var_decl :: "(AstNode \<Rightarrow> Interp \<Rightarrow> eval_result) \<Rightarrow> AstNode \<Rightarrow> Interp \<Rightarrow> exec_result" where
  "exec_var_decl ev node st =
     (case node of
        VarDeclStmt name initializer is_const \<Rightarrow>
          bind (case initializer of None \<Rightarrow> Returns (None, st) | Some e \<Rightarrow> ev e st) (\<lambda>(val, st1).
            case val of
              None \<Rightarrow> Returns (False, st1)
            | Some v \<Rightarrow> define_variable name (Some v) is_const st1)
      | _ \<Rightarrow> Returns (False, set_error KUNYU_ERROR_RUNTIME (Msg_expected_node ''variable declaration'') st))"

definition exec_if_stmt ::
  "(AstNode \<Rightarrow> Interp \<Rightarrow> eval_result) \<Rightarrow> (AstNode \<Rightarrow> Interp \<Rightarrow> exec_result)
     \<Rightarrow> AstNode \<Rightarrow> Interp \<Rightarrow> exec_result" where
  "exec_if_stmt ev ex node st =
     (case node of
        IfStmt condition then_branch else_branch \<Rightarrow>
          bind (ev condition st) (\<lambda>(cond, st1).
            case cond of
              None \<Rightarrow> Returns (False, st1)
            | Some c \<Rightarrow>
                if is_truthy (Some c) then ex then_branch st1
                else (case else_branch of Some e \<Rightarrow> ex e st1 | None \<Rightarrow> Returns (True, st1)))
      | _ \<Rightarrow> Returns (False, set_error KUNYU_ERROR_RUNTIME (Msg_expected_node ''if statement'') st))"

primrec loop_iterations ::
  "(AstNode \<Rightarrow> Interp \<Rightarrow> eval_result) \<Rightarrow> (AstNode \<Rightarrow> Interp \<Rightarrow> exec_result)
     \<Rightarrow> nat \<Rightarrow> AstNode \<Rightarrow> AstNode \<Rightarrow> Interp \<Rightarrow> exec_result" where
  "loop_iterations ev ex 0 condition loop_body st = Fuel_Exhausted"
| "loop_iterations ev ex (Suc k) condition loop_body st =
     bind (ev condition st) (\<lambda>(cond, st1).
       case cond of
         None \<Rightarrow> Returns (False, st1)
       | Some c \<Rightarrow>
           if \<not> is_truthy (Some c) then Returns (True, st1)
           else
             bind (ex loop_body st1) (\<lambda>(result, st2).
               if \<not> result then Returns (False, st2)
               else if has_return st2 then Returns (True, st2)
               else loop_iterations ev ex k condition loop_body st2))"

definition exec_loop_stmt ::
  "(AstNode \<Rightarrow> Interp \<Rightarrow> eval_result) \<Rightarrow> (AstNode \<Rightarrow> Interp \<Rightarrow> exec_result)
     \<Rightarrow> nat \<Rightarrow> AstNode \<Rightarrow> Interp \<Rightarrow> exec_result" where
  "exec_loop_stmt ev ex k node st =
     (case node of
        LoopStmt condition loop_body \<Rightarrow> loop_iterations ev ex k condition loop_body st
      | _ \<Rightarrow> Returns (False, set_error KUNYU_ERROR_RUNTIME (Msg_expected_node ''loop statement'') st))"

definition exec_function_decl :: "AstNode \<Rightarrow> Interp \<Rightarrow> exec_result" where
  "exec_function_decl node st =
     (case node of
        FunctionStmt name ps b \<Rightarrow> Returns (define_function name ps b st)
      | _ \<Rightarrow> Returns (False, set_error KUNYU_ERROR_RUNTIME (Msg_expected_node ''function declaration'') st))"

text \<open>The statement loop of \<open>execute_block\<close>, in the scope just pushed; every exit pops it.\<close>

primrec block_statements ::
  "(AstNode \<Rightarrow> Interp \<Rightarrow> exec_result) \<Rightarrow> AstNode list \<Rightarrow> Interp \<Rightarrow> exec_result" where
  "block_statements ex [] st = Returns (True, pop_scope st)"
| "block_statements ex (stmt # rest) st =
     bind (ex stmt st) (\<lambda>(ok, st1).
       if \<not> ok then Returns (False, pop_scope st1)
       else if has_return st1 then Returns (True, pop_scope st1)
       else block_statements ex rest st1)"

definition execute_block :: "(AstNode \<Rightarrow> Interp \<Rightarrow> exec_result) \<Rightarrow> AstNode \<Rightarrow> Interp \<Rightarrow> exec_result" where
  "execute_block ex node st =
     (case node of
        BlockStmt statements \<Rightarrow> block_statements ex statements (push_scope st)
      | _ \<Rightarrow> Returns (False, set_error KUNYU_ERROR_RUNTIME (Msg_expected_node ''block'') st))"

definition exec_return_stmt :: "(AstNode \<Rightarrow> Interp \<Rightarrow> eval_result) \<Rightarrow> AstNode \<Rightarrow> Interp \<Rightarrow> exec_result" where
  "exec_return_stmt ev node st =
     (case node of
        ReturnStmt val_expr \<Rightarrow>
          (case val_expr of
             Some e \<Rightarrow>
               bind (ev e (st\<lparr>return_value := None\<rparr>)) (\<lambda>(val, st1).
                 case val of
                   None \<Rightarrow> Returns (False, st1)
                 | Some v \<Rightarrow> Returns (True, st1\<lparr>return_value := Some v, has_return := True\<rparr>))
           | None \<Rightarrow> Returns (True, st\<lparr>return_value := None, has_return := True\<rparr>))
      | _ \<Rightarrow> Returns (False, set_error KUNYU_ERROR_RUNTIME (Msg_expected_node ''return statement'') st))"

definition exec_expression_stmt :: "(AstNode \<Rightarrow> Interp \<Rightarrow> eval_result) \<Rightarrow> AstNode \<Rightarrow> Interp \<Rightarrow> exec_result" where
  "exec_expression_stmt ev node st =
     (case node of
        ExpressionStmt expr \<Rightarrow>
          bind (ev expr st) (\<lambda>(result, st1).
            case result of
              None \<Rightarrow> Returns (False, st1)
            | Some r \<Rightarrow> Returns (True, st1))
      | _ \<Rightarrow> Returns (False, set_error KUNYU_ERROR_RUNTIME (Msg_expected_node ''expression statement'') st))"

text \<open>
  \<open>execute_statement\<close>.  An expression statement carries the node type
  \<open>NODE_PROGRAM\<close> and is told from a program by its \<open>stmt_type\<close>; a \<open>Program\<close>
  struct has no such field, so the read is undefined for it.
\<close>

definition execute_statement_body ::
  "(AstNode \<Rightarrow> Interp \<Rightarrow> eval_result) \<Rightarrow> (AstNode \<Rightarrow> Interp \<Rightarrow> exec_result)
     \<Rightarrow> nat \<Rightarrow> AstNode \<Rightarrow> Interp \<Rightarrow> exec_result" where
  "execute_statement_body ev ex k node st =
     (case node of
        PrintStmt _ \<Rightarrow> exec_print_stmt ev node st
      | VarDeclStmt _ _ _ \<Rightarrow> exec_var_decl ev node st
      | IfStmt _ _ _ \<Rightarrow> exec_if_stmt ev ex node st
      | LoopStmt _ _ \<Rightarrow> exec_loop_stmt ev ex k node st
      | FunctionStmt _ _ _ \<Rightarrow> exec_function_decl node st
      | BlockStmt _ \<Rightarrow> execute_block ex node st
      | ReturnStmt _ \<Rightarrow> exec_return_stmt ev node st
      | ExpressionStmt _ \<Rightarrow> exec_expression_stmt ev node st
      | Program _ \<Rightarrow> Undefined
      | _ \<Rightarrow> Returns (False, set_error KUNYU_ERROR_RUNTIME Msg_unsupported_statement st))"

fun eval_expression :: "nat \<Rightarrow> AstNode \<Rightarrow> Interp \<Rightarrow> eval_result"
  and execute_statement :: "nat \<Rightarrow> AstNode \<Rightarrow> Interp \<Rightarrow> exec_result" where
  "eval_expression 0 node st = Fuel_Exhausted"
| "eval_expression (Suc n) node st =
     eval_expression_body (eval_expression n) (execute_statement n) node st"
| "execute_statement 0 node st = Fuel_Exhausted"
| "execute_statement (Suc n) node st =
     execute_statement_body (eval_expression n) (execute_statement n) n node st"

text \<open>The statement loop of \<open>execute_program\<close>.\<close>

primrec program_statements :: "nat \<Rightarrow> AstNode list \<Rightarrow> Interp \<Rightarrow> exec_result" where
  "program_statements n [] st = Returns (True, st)"
| "program_statements n (stmt # rest) st =
     bind (execute_statement n stmt st) (\<lambda>(ok, st1).
       if \<not> ok then Returns (False, st1)
       else if has_return st1 then Returns (True, st1)
       else program_statements n rest st1)"

text \<open>
  \<open>execute_program\<close> accepts every node of type \<open>NODE_PROGRAM\<close> and reads it as a
  \<open>Program\<close>; for an expression statement, which has that type too, the read is
  undefined.
\<close>

definition execute_program :: "nat \<Rightarrow> AstNode \<Rightarrow> Interp \<Rightarrow> exec_result" where
  "execute_program n program st =
     (case program of
        Program statements \<Rightarrow> program_statements n statements st
      | ExpressionStmt _ \<Rightarrow> Undefined
      | _ \<Rightarrow> Returns (False, set_error KUNYU_ERROR_RUNTIME (Msg_expected_node ''program'') st))"

text \<open>
  \<open>interpreter_init\<close>: the error, the return state, the scopes and the function
  table are reset, and the builtins are registered once more on top of those
  already there.  The containers and the output are not the interpreter's to reset.
\<close>

definition interpreter_init :: "Interp \<Rightarrow> Interp" where
  "interpreter_init st =
     \<lparr>interpreter_error = (interpreter_error st)\<lparr>code := KUNYU_OK, message := Msg_none, line := 0, column := 0\<rparr>,
      has_return = False,
      return_value = None,
      current_scope = [[]],
      function_table = [],
      builtin_funcs = builtins_init (builtin_funcs st),
      containers = containers st,
      printed = printed st\<rparr>"

definition interpreter_execute :: "nat \<Rightarrow> AstNode option \<Rightarrow> Interp \<Rightarrow> exec_result" where
  "interpreter_execute n ast st =
     (case ast of
        None \<Rightarrow> Returns (False, st)
      | Some r \<Rightarrow> execute_program n r (interpreter_init st))"

text \<open>The statics of a process that has not run the interpreter yet: all zero.\<close>

definition initial_interp :: Interp where
  "initial_interp =
     \<lparr>interpreter_error = \<lparr>code = KUNYU_OK, message = Msg_none, line = 0, column = 0\<rparr>,
      has_return = False, return_value = None, current_scope = [], function_table = [],
      builtin_funcs = [], containers = [], printed = []\<rparr>"

section \<open>The object system: reference counts\<close>

text \<open>
  The memory of the object system: an address holds an object or nothing (never
  allocated, or freed).  A pointer is an address or NULL (\<open>None\<close>).  An object
  carries its reference count (a C \<open>int\<close>, modelled without its upper bound) and
  its content, which also stands for its type tag and its destructor; the items
  of a list and of a dictionary are pointers.  The capacity of a list is not
  modelled, \<open>realloc\<close> being assumed to succeed.  Reading or writing through a
  pointer to freed memory is undefined.
\<close>

datatype content =
    NumberValue rat
  | StringValue string
  | ListValue "nat list"
  | DictValue "(nat \<times> nat) list"

record HeapObject =
  ref_count :: int
  content :: content

type_synonym heap = "nat \<Rightarrow> HeapObject option"







text \<open>The constructors, given the address \<open>a\<close> that \<open>malloc\<close> returns (one that holds nothing).\<close>

definition py_number_new :: "nat \<Rightarrow> rat \<Rightarrow> heap \<Rightarrow> nat option \<times> heap" where
  "py_number_new a v h = (Some a, h(a \<mapsto> \<lparr>ref_count = 1, content = NumberValue v\<rparr>))"

definition py_list_new :: "nat \<Rightarrow> heap \<Rightarrow> nat option \<times> heap" where
  "py_list_new a h = (Some a, h(a \<mapsto> \<lparr>ref_count = 1, content = ListValue []\<rparr>))"


section \<open>Notions used to state the properties\<close>

text \<open>
  What a run may change in the chain of scopes is said in terms of its shape: the
  names and the constant flags of the variables of each scope, innermost scope
  first.  \<open>extends\<close> relates a chain to the same chain with variables added to its
  innermost scope.  \<open>error_position\<close> is the line and the column of the
  interpreter's error.
\<close>

definition scope_shape :: "Interp \<Rightarrow> (string \<times> bool) list list" where
  "scope_shape st = map (map (\<lambda>entry. (var_name entry, is_constant entry))) (current_scope st)"

definition error_position :: "Interp \<Rightarrow> int \<times> int" where
  "error_position st = (line (interpreter_error st), column (interpreter_error st))"

definition extends :: "(string \<times> bool) list list \<Rightarrow> (string \<times> bool) list list \<Rightarrow> bool" where
  "extends sh sh' = (case sh of [] \<Rightarrow> sh' = [] | frame # rest \<Rightarrow> (\<exists>new. sh' = (new @ frame) # rest))"

definition preserves :: "Interp \<Rightarrow> Interp \<Rightarrow> bool" where
  "preserves st st' = (scope_shape st' = scope_shape st \<and> error_position st' = error_position st)"

definition grows :: "Interp \<Rightarrow> Interp \<Rightarrow> bool" where
  "grows st st' = (extends (scope_shape st) (scope_shape st') \<and> error_position st' = error_position st)"

definition ev_ok :: "(AstNode \<Rightarrow> Interp \<Rightarrow> eval_result) \<Rightarrow> bool" where
  "ev_ok ev = (\<forall>node st v st'. ev node st = Returns (v, st') \<longrightarrow> preserves st st')"

definition ex_ok :: "(AstNode \<Rightarrow> Interp \<Rightarrow> exec_result) \<Rightarrow> bool" where
  "ex_ok ex = (\<forall>node st ok st'. ex node st = Returns (ok, st') \<longrightarrow> grows st st')"

text \<open>
  For the chains of binary operators: an atom is a token that is a primary
  expression by itself (a number, a string, an identifier not followed by an
  opening parenthesis), \<open>atom_node\<close> the node \<open>parse_primary\<close> builds for it.  A
  chain is given as the list of its operator tokens, each with the operator type
  it stands for and the operand token that follows it; \<open>chain_tokens\<close> is the
  token sequence, \<open>chain_node\<close> the grouping from the left.  \<open>ends_chain\<close> says
  that the tokens after the chain do not continue it.  \<open>token_at\<close> is a token of
  the first line of a source.
\<close>

definition is_atom :: "Token \<Rightarrow> bool" where
  "is_atom t = (tok_type t = KUNYU_TOKEN_NUMBER \<or> tok_type t = KUNYU_TOKEN_STRING
                \<or> tok_type t = KUNYU_TOKEN_IDENTIFIER)"

definition atom_node :: "Token \<Rightarrow> AstNode" where
  "atom_node t =
     (if tok_type t = KUNYU_TOKEN_IDENTIFIER then VariableExpr (tok_value t)
      else LiteralExpr (tok_type t) (tok_value t))"

definition chain_tokens :: "(Token \<times> BinaryOpType \<times> Token) list \<Rightarrow> Token list" where
  "chain_tokens rest = concat (map (\<lambda>(otok, bop, t). [otok, t]) rest)"

definition chain_node :: "AstNode \<Rightarrow> (Token \<times> BinaryOpType \<times> Token) list \<Rightarrow> AstNode" where
  "chain_node left rest = foldl (\<lambda>l (otok, bop, t). BinaryExpr l bop (atom_node t)) left rest"

definition ends_chain :: "Token list \<Rightarrow> bool" where
  "ends_chain follow =
     (case follow of
        [] \<Rightarrow> True
      | f # _ \<Rightarrow> tok_type f \<noteq> KUNYU_TOKEN_OPERATOR
                 \<and> \<not> (tok_type f = KUNYU_TOKEN_DELIMITER \<and> tok_value f = ''(''))"

definition token_at :: "KunyuTokenType \<Rightarrow> string \<Rightarrow> int \<Rightarrow> Token" where
  "token_at ty v c = \<lparr>tok_type = ty, tok_value = v, tok_line = 1, tok_column = c\<rparr>"




section \<open>Basic facts\<close>

lemma bind_Returns [simp]: "bind (Returns v) f = f v"
  by (simp add: bind_def)
lemma bind_Fuel [simp]: "bind Fuel_Exhausted f = Fuel_Exhausted"
  by (simp add: bind_def)
lemma bind_Undefined [simp]: "bind Undefined f = Undefined"
  by (simp add: bind_def)

lemma bind_eq_Returns: "bind m f = Returns r \<longleftrightarrow> (\<exists>v. m = Returns v \<and> f v = Returns r)"
  by (cases m) simp_all

lemma bind_ReturnsE:
  assumes "bind m f = Returns r"
  obtains v where "m = Returns v" "f v = Returns r"
  using assms by (auto simp: bind_eq_Returns)

lemma extends_refl [simp]: "extends sh sh"
  by (auto simp: extends_def split: list.splits)

lemma extends_trans: "extends a b \<Longrightarrow> extends b c \<Longrightarrow> extends a c"
  by (auto simp: extends_def split: list.splits)

lemma preserves_refl [simp]: "preserves st st"
  by (simp add: preserves_def)

lemma grows_refl [simp]: "grows st st"
  by (simp add: grows_def)

lemma preserves_trans: "preserves a b \<Longrightarrow> preserves b c \<Longrightarrow> preserves a c"
  by (simp add: preserves_def)

lemma grows_trans: "grows a b \<Longrightarrow> grows b c \<Longrightarrow> grows a c"
  by (auto simp: grows_def intro: extends_trans)

lemma preserves_grows: "preserves a b \<Longrightarrow> grows a b"
  by (simp add: preserves_def grows_def)

lemma preserves_grows_trans: "preserves a b \<Longrightarrow> grows b c \<Longrightarrow> grows a c"
  by (simp add: preserves_def grows_def)

lemma grows_preserves_trans: "grows a b \<Longrightarrow> preserves b c \<Longrightarrow> grows a c"
  by (simp add: preserves_def grows_def)

lemma preserves_set_error [simp]: "preserves st (set_error c m st')  = preserves st st'"
  by (simp add: preserves_def set_error_def scope_shape_def error_position_def)

lemma grows_set_error [simp]: "grows st (set_error c m st')  = grows st st'"
  by (simp add: grows_def set_error_def scope_shape_def error_position_def)

lemma shape_simps [simp]:
  "scope_shape (set_error c m st) = scope_shape st"
  "scope_shape (push_scope st) = [] # scope_shape st"
  "scope_shape (pop_scope st) = tl (scope_shape st)"
  "scope_shape (clear_return st) = scope_shape st"
  "scope_shape (st\<lparr>printed := pr\<rparr>) = scope_shape st"
  "scope_shape (st\<lparr>containers := cs\<rparr>) = scope_shape st"
  "scope_shape (st\<lparr>return_value := rv\<rparr>) = scope_shape st"
  "scope_shape (st\<lparr>has_return := hr\<rparr>) = scope_shape st"
  "scope_shape (st\<lparr>function_table := ft\<rparr>) = scope_shape st"
  by (simp_all add: scope_shape_def set_error_def push_scope_def pop_scope_def clear_return_def
        split: list.splits)

lemma position_simps [simp]:
  "error_position (set_error c m st) = error_position st"
  "error_position (push_scope st) = error_position st"
  "error_position (pop_scope st) = error_position st"
  "error_position (clear_return st) = error_position st"
  "error_position (st\<lparr>printed := pr\<rparr>) = error_position st"
  "error_position (st\<lparr>containers := cs\<rparr>) = error_position st"
  "error_position (st\<lparr>return_value := rv\<rparr>) = error_position st"
  "error_position (st\<lparr>has_return := hr\<rparr>) = error_position st"
  "error_position (st\<lparr>function_table := ft\<rparr>) = error_position st"
  "error_position (st\<lparr>current_scope := sc\<rparr>) = error_position st"
  by (simp_all add: error_position_def set_error_def push_scope_def pop_scope_def clear_return_def
        split: list.splits)

lemma set_error_fields [simp]:
  "current_scope (set_error c m st) = current_scope st"
  "has_return (set_error c m st) = has_return st"
  "return_value (set_error c m st) = return_value st"
  "function_table (set_error c m st) = function_table st"
  "builtin_funcs (set_error c m st) = builtin_funcs st"
  "containers (set_error c m st) = containers st"
  "printed (set_error c m st) = printed st"
  "code (interpreter_error (set_error c m st)) = c"
  "message (interpreter_error (set_error c m st)) = m"
  "line (interpreter_error (set_error c m st)) = line (interpreter_error st)"
  "column (interpreter_error (set_error c m st)) = column (interpreter_error st)"
  by (simp_all add: set_error_def)

lemma define_variable_shape:
  assumes "define_variable name v c st = Returns (ok, st')"
  shows "error_position st' = error_position st"
    and "ok \<Longrightarrow> scope_shape st' = ((name, c) # hd (scope_shape st)) # tl (scope_shape st)"
    and "\<not> ok \<Longrightarrow> scope_shape st' = scope_shape st"
    and "scope_shape st \<noteq> []"
  using assms
  by (auto simp: define_variable_def scope_shape_def split: list.splits if_splits)

lemma define_variable_grows:
  assumes "define_variable name v c st = Returns (ok, st')"
  shows "grows st st'"
proof (cases ok)
  case True
  from define_variable_shape[OF assms] True show ?thesis
    by (cases "scope_shape st") (auto simp: grows_def extends_def)
next
  case False
  with define_variable_shape[OF assms] show ?thesis
    by (simp add: grows_def)
qed

lemma assign_in_scope_shape:
  "map (\<lambda>entry. (var_name entry, is_constant entry)) (assign_in_scope name v scope)
     = map (\<lambda>entry. (var_name entry, is_constant entry)) scope"
  by (induction scope) auto

lemma assign_entry_shape:
  "map (map (\<lambda>entry. (var_name entry, is_constant entry))) (assign_entry name v scopes)
     = map (map (\<lambda>entry. (var_name entry, is_constant entry))) scopes"
  by (induction scopes) (auto simp: assign_in_scope_shape)

lemma set_variable_preserves: "set_variable name v st = (ok, st') \<Longrightarrow> preserves st st'"
  by (auto simp: set_variable_def preserves_def scope_shape_def assign_entry_shape
      split: option.splits if_splits)

lemma get_variable_preserves: "get_variable name st = (v, st') \<Longrightarrow> preserves st st'"
  by (auto simp: get_variable_def split: option.splits)

lemma define_function_preserves: "define_function name ps b st = (ok, st') \<Longrightarrow> preserves st st'"
  by (auto simp: define_function_def preserves_def split: if_splits)

lemma eval_literal_preserves: "eval_literal_expr ty v st = (r, st') \<Longrightarrow> preserves st st'"
  by (auto simp: eval_literal_expr_def split: if_splits)

lemma binary_operation_preserves: "binary_operation op l r st = Returns (v, st') \<Longrightarrow> preserves st st'"
  by (auto simp: binary_operation_def number_result_def
      split: if_splits PyObject.splits BinaryOpType.splits option.splits)

lemma ev_okD: "ev_ok ev \<Longrightarrow> ev node st = Returns (v, st') \<Longrightarrow> preserves st st'"
  by (auto simp: ev_ok_def)

lemma ex_okD: "ex_ok ex \<Longrightarrow> ex node st = Returns (ok, st') \<Longrightarrow> grows st st'"
  by (auto simp: ex_ok_def)

lemma eval_binary_expr_preserves:
  assumes "ev_ok ev" "eval_binary_expr ev l op r st = Returns (v, st')"
  shows "preserves st st'"
  using assms(2)
  by (auto simp: eval_binary_expr_def elim!: bind_ReturnsE split: option.splits
      dest!: ev_okD[OF assms(1)] binary_operation_preserves)
     (blast intro: preserves_trans)+

lemma eval_arguments_preserves:
  assumes "ev_ok ev" "eval_arguments ev args vals st = Returns (v, st')"
  shows "preserves st st'"
  using assms(2)
proof (induction args arbitrary: vals st)
  case Nil
  then show ?case by simp
next
  case (Cons a args)
  then show ?case
    by (auto elim!: bind_ReturnsE split: option.splits dest!: ev_okD[OF assms(1)])
       (blast intro: preserves_trans)+
qed


lemma bind_parameters_shape:
  assumes "ev_ok ev"
      and "bind_parameters ev args ps st = Returns (ok, st')"
      and "scope_shape st = frame # sh"
  shows "error_position st' = error_position st
         \<and> (ok \<longrightarrow> scope_shape st' = (rev (map (\<lambda>p. (p, False)) (take (length args) ps)) @ frame) # sh)
         \<and> (\<not> ok \<longrightarrow> scope_shape st' = sh)"
  using assms(2,3)
proof (induction args arbitrary: ps st frame)
  case Nil
  then show ?case by auto
next
  case (Cons a args)
  from Cons.prems(1) obtain v st1 where
    a: "ev a st = Returns (v, st1)" and
    rest: "(case v of None \<Rightarrow> Returns (False, pop_scope st1)
            | Some x \<Rightarrow> (case ps of [] \<Rightarrow> Undefined
                | p # ps' \<Rightarrow> bind (define_variable p (Some x) False st1) (\<lambda>(result, st2).
                    if \<not> result then Returns (False, pop_scope st2)
                    else bind_parameters ev args ps' st2))) = Returns (ok, st')"
    by (auto elim!: bind_ReturnsE)
  from ev_okD[OF assms(1) a] Cons.prems(2)
  have s1: "scope_shape st1 = frame # sh" and e1: "error_position st1 = error_position st"
    by (simp_all add: preserves_def)
  show ?case
  proof (cases v)
    case None
    with rest s1 e1 show ?thesis by auto
  next
    case (Some x)
    with rest obtain p ps' where ps: "ps = p # ps'"
      by (cases ps) auto
    from rest Some ps obtain result st2 where
      d: "define_variable p (Some x) False st1 = Returns (result, st2)" and
      r2: "(if \<not> result then Returns (False, pop_scope st2)
            else bind_parameters ev args ps' st2) = Returns (ok, st')"
      by (auto elim!: bind_ReturnsE)
    note dv = define_variable_shape[OF d]
    show ?thesis
    proof (cases result)
      case False
      with r2 dv s1 e1 show ?thesis by auto
    next
      case True
      with dv s1 have s2: "scope_shape st2 = ((p, False) # frame) # sh" by simp
      from True r2 have "bind_parameters ev args ps' st2 = Returns (ok, st')" by simp
      from Cons.IH[OF this s2] dv(1) e1 ps show ?thesis by simp
    qed
  qed
qed

lemma eval_call_expr_preserves:
  assumes "ev_ok ev" "ex_ok ex" "eval_call_expr ev ex name args st = Returns (v, st')"
  shows "preserves st st'"
proof (cases "builtins_is_builtin name (builtin_funcs st)")
  case True
  with assms(3) obtain vals st1 where
    a: "eval_arguments ev args [] st = Returns (vals, st1)" and
    r: "(case vals of None \<Rightarrow> Returns (None, st1)
         | Some vs \<Rightarrow> bind (builtins_call name vs (builtin_funcs st1) (containers st1)) (\<lambda>(result, cs).
             case result of
               None \<Rightarrow> Returns (None, set_error KUNYU_ERROR_RUNTIME (Msg_builtin_call_failed name)
                                   (st1\<lparr>containers := cs\<rparr>))
             | Some r \<Rightarrow> Returns (Some r, st1\<lparr>containers := cs\<rparr>))) = Returns (v, st')"
    by (auto simp: eval_call_expr_def elim!: bind_ReturnsE)
  from eval_arguments_preserves[OF assms(1) a] have p1: "preserves st st1" .
  from r have "preserves st1 st'"
    by (auto simp: preserves_def elim!: bind_ReturnsE split: option.splits)
  with p1 show ?thesis by (rule preserves_trans)
next
  case False
  show ?thesis
  proof (cases "find_function name (function_table st)")
    case None
    with False assms(3) show ?thesis by (auto simp: eval_call_expr_def)
  next
    case (Some f)
    show ?thesis
    proof (cases "length args \<noteq> length (params f)")
      case True
      with False Some assms(3) show ?thesis by (auto simp: eval_call_expr_def)
    next
      case eq: False
      with False Some assms(3) obtain bound st1 where
        b: "bind_parameters ev args (params f) (push_scope st) = Returns (bound, st1)" and
        r: "(if \<not> bound then Returns (None, st1)
             else bind (ex (body f) (clear_return st1)) (\<lambda>(success, st2).
                    let result = (if success \<and> has_return st2 then return_value st2 else None);
                        st3 = clear_return (pop_scope st2)
                    in if \<not> success then Returns (None, st3) else Returns (result, st3)))
             = Returns (v, st')"
        by (auto simp: eval_call_expr_def elim!: bind_ReturnsE)
      have "scope_shape (push_scope st) = [] # scope_shape st" by simp
      note bp = bind_parameters_shape[OF assms(1) b this]
      show ?thesis
      proof (cases bound)
        case False
        with r bp show ?thesis by (auto simp: preserves_def)
      next
        case True
        with r obtain success st2 where
          e: "ex (body f) (clear_return st1) = Returns (success, st2)" and
          st': "st' = clear_return (pop_scope st2)"
          by (auto elim!: bind_ReturnsE simp: Let_def split: if_splits)
        from ex_okD[OF assms(2) e] True bp
        have "tl (scope_shape st2) = scope_shape st" "error_position st2 = error_position st"
          by (auto simp: grows_def extends_def)
        with st' show ?thesis by (simp add: preserves_def)
      qed
    qed
  qed
qed

lemma eval_assign_expr_preserves:
  assumes "ev_ok ev" "eval_assign_expr ev name e st = Returns (v, st')"
  shows "preserves st st'"
  using assms(2)
  by (auto simp: eval_assign_expr_def elim!: bind_ReturnsE split: option.splits bool.splits prod.splits
      dest!: ev_okD[OF assms(1)] set_variable_preserves)
     (blast intro: preserves_trans)+

lemma eval_expression_body_preserves:
  assumes "ev_ok ev" "ex_ok ex" "eval_expression_body ev ex node st = Returns (v, st')"
  shows "preserves st st'"
proof (cases node)
  case (LiteralExpr ty s)
  with assms(3) show ?thesis
    by (auto simp: eval_expression_body_def dest: eval_literal_preserves)
next
  case (VariableExpr name)
  with assms(3) show ?thesis
    by (auto simp: eval_expression_body_def eval_variable_expr_def dest: get_variable_preserves)
next
  case (BinaryExpr l op r)
  with assms(3) show ?thesis
    by (auto simp: eval_expression_body_def dest: eval_binary_expr_preserves[OF assms(1)])
next
  case (CallExpr name args)
  with assms(3) show ?thesis
    by (auto simp: eval_expression_body_def dest: eval_call_expr_preserves[OF assms(1,2)])
next
  case (GroupingExpr e)
  with assms(3) show ?thesis
    by (auto simp: eval_expression_body_def dest: ev_okD[OF assms(1)])
next
  case (AssignExpr name e)
  with assms(3) show ?thesis
    by (auto simp: eval_expression_body_def dest: eval_assign_expr_preserves[OF assms(1)])
qed (use assms(3) in \<open>auto simp: eval_expression_body_def\<close>)


lemma exec_print_stmt_grows:
  assumes "ev_ok ev" "exec_print_stmt ev node st = Returns (ok, st')"
  shows "grows st st'"
  using assms(2)
  by (cases node)
     (auto simp: exec_print_stmt_def grows_def preserves_def elim!: bind_ReturnsE
           split: option.splits dest!: ev_okD[OF assms(1)])

lemma exec_var_decl_grows:
  assumes "ev_ok ev" "exec_var_decl ev node st = Returns (ok, st')"
  shows "grows st st'"
proof (cases node)
  case (VarDeclStmt name initializer is_const)
  with assms(2) obtain v st1 where
    i: "(case initializer of None \<Rightarrow> Returns (None, st) | Some e \<Rightarrow> ev e st) = Returns (v, st1)" and
    r: "(case v of None \<Rightarrow> Returns (False, st1)
         | Some x \<Rightarrow> define_variable name (Some x) is_const st1) = Returns (ok, st')"
    by (auto simp: exec_var_decl_def elim!: bind_ReturnsE)
  from i have p1: "preserves st st1"
    by (auto split: option.splits dest: ev_okD[OF assms(1)])
  from r have "grows st1 st'"
    by (auto split: option.splits dest: define_variable_grows)
  with p1 show ?thesis by (rule preserves_grows_trans)
qed (use assms(2) in \<open>auto simp: exec_var_decl_def\<close>)

lemma exec_if_stmt_grows:
  assumes "ev_ok ev" "ex_ok ex" "exec_if_stmt ev ex node st = Returns (ok, st')"
  shows "grows st st'"
proof (cases node)
  case (IfStmt c t e)
  with assms(3) obtain v st1 where
    c: "ev c st = Returns (v, st1)" and
    r: "(case v of None \<Rightarrow> Returns (False, st1)
         | Some x \<Rightarrow> if is_truthy (Some x) then ex t st1
                      else (case e of Some e' \<Rightarrow> ex e' st1 | None \<Rightarrow> Returns (True, st1)))
        = Returns (ok, st')"
    by (auto simp: exec_if_stmt_def elim!: bind_ReturnsE)
  from r have "grows st1 st'"
    by (auto split: option.splits if_splits dest: ex_okD[OF assms(2)])
  with ev_okD[OF assms(1) c] show ?thesis by (rule preserves_grows_trans)
qed (use assms(3) in \<open>auto simp: exec_if_stmt_def\<close>)

lemma loop_iterations_grows:
  assumes "ev_ok ev" "ex_ok ex" "loop_iterations ev ex k c b st = Returns (ok, st')"
  shows "grows st st'"
  using assms(3)
proof (induction k arbitrary: st)
  case 0
  then show ?case by simp
next
  case (Suc k)
  from Suc.prems obtain v st1 where
    c: "ev c st = Returns (v, st1)" and
    r: "(case v of None \<Rightarrow> Returns (False, st1)
         | Some x \<Rightarrow> if \<not> is_truthy (Some x) then Returns (True, st1)
             else bind (ex b st1) (\<lambda>(result, st2).
               if \<not> result then Returns (False, st2)
               else if has_return st2 then Returns (True, st2)
               else loop_iterations ev ex k c b st2)) = Returns (ok, st')"
    by (auto elim!: bind_ReturnsE)
  have "grows st1 st'"
  proof (cases v)
    case None
    with r show ?thesis by auto
  next
    case (Some x)
    show ?thesis
    proof (cases "is_truthy (Some x)")
      case False
      with r Some show ?thesis by auto
    next
      case True
      with r Some obtain result st2 where
        b: "ex b st1 = Returns (result, st2)" and
        r2: "(if \<not> result then Returns (False, st2)
              else if has_return st2 then Returns (True, st2)
              else loop_iterations ev ex k c b st2) = Returns (ok, st')"
        by (auto elim!: bind_ReturnsE)
      from r2 have "grows st2 st'"
        by (auto split: if_splits dest: Suc.IH)
      with ex_okD[OF assms(2) b] show ?thesis by (rule grows_trans)
    qed
  qed
  with ev_okD[OF assms(1) c] show ?case by (rule preserves_grows_trans)
qed

lemma exec_loop_stmt_grows:
  assumes "ev_ok ev" "ex_ok ex" "exec_loop_stmt ev ex k node st = Returns (ok, st')"
  shows "grows st st'"
  using assms(3)
  by (cases node) (auto simp: exec_loop_stmt_def dest: loop_iterations_grows[OF assms(1,2)])

lemma exec_function_decl_grows:
  assumes "exec_function_decl node st = Returns (ok, st')"
  shows "grows st st'"
  using assms
  by (cases node) (auto simp: exec_function_decl_def dest!: define_function_preserves preserves_grows)

text \<open>Every exit of a block's statement loop pops the scope that the block pushed.\<close>

lemma block_statements_shape:
  assumes "ex_ok ex"
      and "block_statements ex stmts st = Returns (ok, st')"
      and "scope_shape st = frame # sh"
  shows "scope_shape st' = sh \<and> error_position st' = error_position st"
  using assms(2,3)
proof (induction stmts arbitrary: st frame)
  case Nil
  then show ?case by auto
next
  case (Cons s stmts)
  from Cons.prems(1) obtain ok1 st1 where
    s: "ex s st = Returns (ok1, st1)" and
    r: "(if \<not> ok1 then Returns (False, pop_scope st1)
         else if has_return st1 then Returns (True, pop_scope st1)
         else block_statements ex stmts st1) = Returns (ok, st')"
    by (auto elim!: bind_ReturnsE)
  from ex_okD[OF assms(1) s] Cons.prems(2) obtain new where
    s1: "scope_shape st1 = (new @ frame) # sh" and e1: "error_position st1 = error_position st"
    by (auto simp: grows_def extends_def)
  show ?case
  proof (cases "\<not> ok1 \<or> has_return st1")
    case True
    with r s1 e1 show ?thesis by (auto split: if_splits)
  next
    case False
    with r have "block_statements ex stmts st1 = Returns (ok, st')" by simp
    from Cons.IH[OF this s1] e1 show ?thesis by simp
  qed
qed

lemma execute_block_preserves:
  assumes "ex_ok ex" "execute_block ex node st = Returns (ok, st')"
  shows "preserves st st'"
proof (cases node)
  case (BlockStmt stmts)
  with assms(2) have "block_statements ex stmts (push_scope st) = Returns (ok, st')"
    by (simp add: execute_block_def)
  from block_statements_shape[OF assms(1) this, of "[]" "scope_shape st"]
  show ?thesis by (simp add: preserves_def)
qed (use assms(2) in \<open>auto simp: execute_block_def\<close>)

lemma exec_return_stmt_grows:
  assumes "ev_ok ev" "exec_return_stmt ev node st = Returns (ok, st')"
  shows "grows st st'"
  using assms(2)
  by (cases node)
     (auto simp: exec_return_stmt_def grows_def preserves_def elim!: bind_ReturnsE
           split: option.splits dest!: ev_okD[OF assms(1)])

lemma exec_expression_stmt_grows:
  assumes "ev_ok ev" "exec_expression_stmt ev node st = Returns (ok, st')"
  shows "grows st st'"
  using assms(2)
  by (cases node)
     (auto simp: exec_expression_stmt_def grows_def preserves_def elim!: bind_ReturnsE
           split: option.splits dest!: ev_okD[OF assms(1)])

lemma execute_statement_body_grows:
  assumes "ev_ok ev" "ex_ok ex" "execute_statement_body ev ex k node st = Returns (ok, st')"
  shows "grows st st'"
  using assms(3)
  by (cases node)
     (auto simp: execute_statement_body_def
           dest: exec_print_stmt_grows[OF assms(1)] exec_var_decl_grows[OF assms(1)]
                 exec_if_stmt_grows[OF assms(1,2)] exec_loop_stmt_grows[OF assms(1,2)]
                 exec_function_decl_grows exec_return_stmt_grows[OF assms(1)]
                 exec_expression_stmt_grows[OF assms(1)]
                 execute_block_preserves[OF assms(2), THEN preserves_grows])

lemma evaluator_invariant: "ev_ok (eval_expression n) \<and> ex_ok (execute_statement n)"
proof (induction n)
  case 0
  show ?case by (simp add: ev_ok_def ex_ok_def)
next
  case (Suc n)
  then have ev: "ev_ok (eval_expression n)" and ex: "ex_ok (execute_statement n)"
    by simp_all
  show ?case
    unfolding ev_ok_def ex_ok_def
    by (auto dest: eval_expression_body_preserves[OF ev ex] execute_statement_body_grows[OF ev ex])
qed

lemma program_statements_grows:
  "program_statements n stmts st = Returns (ok, st') \<Longrightarrow> grows st st'"
proof (induction stmts arbitrary: st)
  case Nil
  then show ?case by simp
next
  case (Cons s stmts)
  from Cons.prems obtain ok1 st1 where
    s: "execute_statement n s st = Returns (ok1, st1)" and
    r: "(if \<not> ok1 then Returns (False, st1)
         else if has_return st1 then Returns (True, st1)
         else program_statements n stmts st1) = Returns (ok, st')"
    by (auto elim!: bind_ReturnsE)
  from r have "grows st1 st'"
    by (auto split: if_splits dest: Cons.IH)
  with ex_okD[OF conjunct2[OF evaluator_invariant] s] show ?case by (rule grows_trans)
qed

lemma execute_program_grows:
  "execute_program n program st = Returns (ok, st') \<Longrightarrow> grows st st'"
  by (cases program) (auto simp: execute_program_def dest: program_statements_grows)

section \<open>Chains of binary operators (C1)\<close>

lemma current_token_drop:
  "current_token p = (case drop (current p) (tokens p) of [] \<Rightarrow> None | t # _ \<Rightarrow> Some t)"
  by (auto simp: current_token_def hd_drop_conv_nth split: list.splits dest: arg_cong[where f=hd])

lemma drop_Suc_tokens: "drop c ts = x # xs \<Longrightarrow> drop (Suc c) ts = xs"
  by (metis drop_Suc list.sel(3) tl_drop)

lemma parse_primary_atom:
  assumes "drop (current p) (tokens p) = t # after" "is_atom t"
      and "case after of [] \<Rightarrow> True | f # _ \<Rightarrow> \<not> (tok_type f = KUNYU_TOKEN_DELIMITER \<and> tok_value f = ''('')"
  shows "parse_primary pe k p = Returns (Some (atom_node t), p\<lparr>current := Suc (current p)\<rparr>)"
  using assms drop_Suc_tokens[OF assms(1)]
  by (auto simp: parse_primary_def current_token_drop advance_def at_delimiter_def is_atom_def
        atom_node_def split: list.splits)

lemma binary_op_of_assign [simp]: "binary_op_of ''='' = None"
  by (simp add: binary_op_of_def)

lemma parse_binary_expr_chain:
  assumes "\<forall>(otok, bop, t) \<in> set rest. tok_type otok = KUNYU_TOKEN_OPERATOR
              \<and> binary_op_of (tok_value otok) = Some bop \<and> is_atom t"
      and "ends_chain follow"
      and "rest \<noteq> []"
      and "length rest \<le> k"
      and "drop (current p) (tokens p) = chain_tokens rest @ follow"
  shows "parse_binary_expr pe k left p =
           Returns (Some (chain_node left rest), p\<lparr>current := current p + 2 * length rest\<rparr>)"
  using assms
proof (induction rest arbitrary: k left p)
  case Nil
  then show ?case by simp
next
  case (Cons x rest)
  obtain otok bop t where x: "x = (otok, bop, t)" by (cases x) auto
  from Cons.prems(4) obtain k' where k: "k = Suc k'" and k': "length rest \<le> k'"
    by (cases k) auto
  from Cons.prems(1) x have otok: "tok_type otok = KUNYU_TOKEN_OPERATOR" "binary_op_of (tok_value otok) = Some bop"
    and t: "is_atom t" and rest: "\<forall>(otok, bop, t) \<in> set rest. tok_type otok = KUNYU_TOKEN_OPERATOR
              \<and> binary_op_of (tok_value otok) = Some bop \<and> is_atom t"
    by auto
  let ?after = "chain_tokens rest @ follow"
  from Cons.prems(5) x have d0: "drop (current p) (tokens p) = otok # t # ?after"
    by (simp add: chain_tokens_def)
  let ?p1 = "p\<lparr>current := Suc (current p)\<rparr>"
  let ?p2 = "p\<lparr>current := Suc (Suc (current p))\<rparr>"
  have adv: "advance p = (Some otok, ?p1)"
    using d0 by (simp add: advance_def current_token_drop)
  have d1: "drop (current ?p1) (tokens ?p1) = t # ?after"
    using drop_Suc_tokens[OF d0] by simp
  have d2: "drop (current ?p2) (tokens ?p2) = ?after"
    using drop_Suc_tokens[OF d1[simplified]] by simp
  have no_paren: "case ?after of [] \<Rightarrow> True
                  | f # _ \<Rightarrow> \<not> (tok_type f = KUNYU_TOKEN_DELIMITER \<and> tok_value f = ''('')"
  proof (cases rest)
    case Nil
    with Cons.prems(2) show ?thesis
      by (auto simp: chain_tokens_def ends_chain_def split: list.splits)
  next
    case (Cons y ys)
    with rest show ?thesis
      by (cases y) (auto simp: chain_tokens_def)
  qed
  have prim: "parse_primary pe k' ?p1 = Returns (Some (atom_node t), ?p2)"
    using parse_primary_atom[OF d1 t no_paren] by simp
  show ?case
  proof (cases rest)
    case Nil
    with Cons.prems(2) d2 have "\<not> at_operator ?p2"
      by (auto simp: at_operator_def current_token_drop chain_tokens_def ends_chain_def
           split: list.splits)
    with adv otok prim Nil x k show ?thesis
      by (simp add: chain_node_def)
  next
    case (Cons y ys)
    with rest d2 have op2: "at_operator ?p2"
      by (cases y) (auto simp: at_operator_def current_token_drop chain_tokens_def)
    from Cons have ne: "rest \<noteq> []" by simp
    have "parse_binary_expr pe k' (BinaryExpr left bop (atom_node t)) ?p2 =
            Returns (Some (chain_node (BinaryExpr left bop (atom_node t)) rest),
                     ?p2\<lparr>current := current ?p2 + 2 * length rest\<rparr>)"
      by (rule Cons.IH[OF rest Cons.prems(2) ne k' d2])
    with adv otok prim op2 x k show ?thesis
      by (simp add: chain_node_def)
  qed
qed

lemma parse_expression_chain:
  assumes "is_atom t0"
      and "\<forall>(otok, bop, t) \<in> set rest. tok_type otok = KUNYU_TOKEN_OPERATOR
              \<and> binary_op_of (tok_value otok) = Some bop \<and> is_atom t"
      and "ends_chain follow"
      and "length rest < n"
      and "drop (current p) (tokens p) = t0 # chain_tokens rest @ follow"
  shows "parse_expression n p =
           Returns (Some (chain_node (atom_node t0) rest), p\<lparr>current := current p + 1 + 2 * length rest\<rparr>)"
proof -
  from assms(4) obtain m where n: "n = Suc m" and m: "length rest \<le> m"
    by (cases n) auto
  let ?after = "chain_tokens rest @ follow"
  let ?p1 = "p\<lparr>current := Suc (current p)\<rparr>"
  have d1: "drop (current ?p1) (tokens ?p1) = ?after"
    using drop_Suc_tokens[OF assms(5)] by simp
  have no_paren: "case ?after of [] \<Rightarrow> True
                  | f # _ \<Rightarrow> \<not> (tok_type f = KUNYU_TOKEN_DELIMITER \<and> tok_value f = ''('')"
  proof (cases rest)
    case Nil
    with assms(3) show ?thesis
      by (auto simp: chain_tokens_def ends_chain_def split: list.splits)
  next
    case (Cons y ys)
    with assms(2) show ?thesis
      by (cases y) (auto simp: chain_tokens_def)
  qed
  have prim: "parse_primary (parse_expression m) m p = Returns (Some (atom_node t0), ?p1)"
    using parse_primary_atom[OF assms(5,1) no_paren] by simp
  have not_assign: "\<not> (check KUNYU_TOKEN_IDENTIFIER p \<and>
         (case peek_token p of
            None \<Rightarrow> False
          | Some next \<Rightarrow> tok_type next = KUNYU_TOKEN_OPERATOR \<and> tok_value next = ''=''))"
  proof (cases rest)
    case Nil
    with assms(3,5) drop_Suc_tokens[OF assms(5)] show ?thesis
      by (auto simp: peek_token_def chain_tokens_def ends_chain_def hd_drop_conv_nth
            split: list.splits option.splits dest: arg_cong[where f=hd])
  next
    case (Cons y ys)
    with assms(2,5) drop_Suc_tokens[OF assms(5)] show ?thesis
      by (cases y)
         (auto simp: peek_token_def chain_tokens_def hd_drop_conv_nth
            split: list.splits option.splits dest: arg_cong[where f=hd])
  qed
  have body: "parse_expression_body (parse_expression m) m p =
      bind (parse_primary (parse_expression m) m p) (\<lambda>(expr, p1).
          case expr of
            None \<Rightarrow> Returns (None, p1)
          | Some e \<Rightarrow>
              if at_operator p1 then parse_binary_expr (parse_expression m) m e p1 else Returns (Some e, p1))"
    unfolding parse_expression_body_def using not_assign by (rule if_not_P)
  show ?thesis
  proof (cases rest)
    case Nil
    with assms(3) d1 have "\<not> at_operator ?p1"
      by (auto simp: at_operator_def current_token_drop chain_tokens_def ends_chain_def
           split: list.splits)
    with body prim Nil n show ?thesis
      by (simp add: chain_node_def)
  next
    case (Cons y ys)
    with assms(2) d1 have op1: "at_operator ?p1"
      by (cases y) (auto simp: at_operator_def current_token_drop chain_tokens_def)
    from Cons have ne: "rest \<noteq> []" by simp
    have "parse_binary_expr (parse_expression m) m (atom_node t0) ?p1 =
            Returns (Some (chain_node (atom_node t0) rest), ?p1\<lparr>current := current ?p1 + 2 * length rest\<rparr>)"
      by (rule parse_binary_expr_chain[OF assms(2,3) ne m d1])
    with body prim op1 n show ?thesis
      by simp
  qed
qed

text \<open>
  C1.  A chain of binary operators over atoms, however long and whatever its
  operators, parses to the grouping from the left: the first operand with the
  first operator and the second operand form a binary node, which is the left
  operand of the second operator, and so on.  The step behind it holds for every
  right operand: the operand is what \<open>parse_primary\<close> parses after the operator,
  and the node built becomes the left operand of a following operator.  The tokens
  of \<open>2 + 3 * 4\<close> parse accordingly, and the parsed expression evaluates to 20.
\<close>

theorem binary_chain_groups_left_to_right:
  "(is_atom t0
    \<and> (\<forall>(otok, bop, t) \<in> set rest.
          tok_type otok = KUNYU_TOKEN_OPERATOR \<and> binary_op_of (tok_value otok) = Some bop \<and> is_atom t)
    \<and> ends_chain follow \<and> length rest < n
    \<and> drop (current p) (tokens p) = t0 # chain_tokens rest @ follow
    \<longrightarrow> parse_expression n p =
          Returns (Some (chain_node (atom_node t0) rest), p\<lparr>current := current p + 1 + 2 * length rest\<rparr>))
   \<and> (advance q = (Some operator, q1) \<and> binary_op_of (tok_value operator) = Some op_type
        \<and> parse_primary pe k q1 = Returns (Some right, q2)
      \<longrightarrow> parse_binary_expr pe (Suc k) left q =
            (if at_operator q2 then parse_binary_expr pe k (BinaryExpr left op_type right) q2
             else Returns (Some (BinaryExpr left op_type right), q2)))
   \<and> parse_expression 3
        (parser_init
          [token_at KUNYU_TOKEN_NUMBER ''2'' 1, token_at KUNYU_TOKEN_OPERATOR ''+'' 3,
           token_at KUNYU_TOKEN_NUMBER ''3'' 5, token_at KUNYU_TOKEN_OPERATOR ''*'' 7,
           token_at KUNYU_TOKEN_NUMBER ''4'' 9, token_at KUNYU_TOKEN_DELIMITER '';'' 10,
           token_at KUNYU_TOKEN_EOF [] 11])
      = Returns
          (Some (BinaryExpr
                   (BinaryExpr (LiteralExpr KUNYU_TOKEN_NUMBER ''2'') OP_ADD (LiteralExpr KUNYU_TOKEN_NUMBER ''3''))
                   OP_MUL (LiteralExpr KUNYU_TOKEN_NUMBER ''4'')),
           (parser_init
             [token_at KUNYU_TOKEN_NUMBER ''2'' 1, token_at KUNYU_TOKEN_OPERATOR ''+'' 3,
              token_at KUNYU_TOKEN_NUMBER ''3'' 5, token_at KUNYU_TOKEN_OPERATOR ''*'' 7,
              token_at KUNYU_TOKEN_NUMBER ''4'' 9, token_at KUNYU_TOKEN_DELIMITER '';'' 10,
              token_at KUNYU_TOKEN_EOF [] 11])\<lparr>current := 5\<rparr>)
   \<and> eval_expression 3
        (BinaryExpr
           (BinaryExpr (LiteralExpr KUNYU_TOKEN_NUMBER ''2'') OP_ADD (LiteralExpr KUNYU_TOKEN_NUMBER ''3''))
           OP_MUL (LiteralExpr KUNYU_TOKEN_NUMBER ''4''))
        (interpreter_init initial_interp)
      = Returns (Some (PyNumberObject 20), interpreter_init initial_interp)"
proof (intro conjI impI)
  assume "is_atom t0
    \<and> (\<forall>(otok, bop, t) \<in> set rest.
          tok_type otok = KUNYU_TOKEN_OPERATOR \<and> binary_op_of (tok_value otok) = Some bop \<and> is_atom t)
    \<and> ends_chain follow \<and> length rest < n
    \<and> drop (current p) (tokens p) = t0 # chain_tokens rest @ follow"
  then show "parse_expression n p =
          Returns (Some (chain_node (atom_node t0) rest), p\<lparr>current := current p + 1 + 2 * length rest\<rparr>)"
    using parse_expression_chain[of t0 rest follow n p] by blast
next
  assume "advance q = (Some operator, q1) \<and> binary_op_of (tok_value operator) = Some op_type
        \<and> parse_primary pe k q1 = Returns (Some right, q2)"
  then show "parse_binary_expr pe (Suc k) left q =
            (if at_operator q2 then parse_binary_expr pe k (BinaryExpr left op_type right) q2
             else Returns (Some (BinaryExpr left op_type right), q2))"
    by simp
next
  show "parse_expression 3
        (parser_init
          [token_at KUNYU_TOKEN_NUMBER ''2'' 1, token_at KUNYU_TOKEN_OPERATOR ''+'' 3,
           token_at KUNYU_TOKEN_NUMBER ''3'' 5, token_at KUNYU_TOKEN_OPERATOR ''*'' 7,
           token_at KUNYU_TOKEN_NUMBER ''4'' 9, token_at KUNYU_TOKEN_DELIMITER '';'' 10,
           token_at KUNYU_TOKEN_EOF [] 11])
      = Returns
          (Some (BinaryExpr
                   (BinaryExpr (LiteralExpr KUNYU_TOKEN_NUMBER ''2'') OP_ADD (LiteralExpr KUNYU_TOKEN_NUMBER ''3''))
                   OP_MUL (LiteralExpr KUNYU_TOKEN_NUMBER ''4'')),
           (parser_init
             [token_at KUNYU_TOKEN_NUMBER ''2'' 1, token_at KUNYU_TOKEN_OPERATOR ''+'' 3,
              token_at KUNYU_TOKEN_NUMBER ''3'' 5, token_at KUNYU_TOKEN_OPERATOR ''*'' 7,
              token_at KUNYU_TOKEN_NUMBER ''4'' 9, token_at KUNYU_TOKEN_DELIMITER '';'' 10,
              token_at KUNYU_TOKEN_EOF [] 11])\<lparr>current := 5\<rparr>)"
    by code_simp
next
  show "eval_expression 3
        (BinaryExpr
           (BinaryExpr (LiteralExpr KUNYU_TOKEN_NUMBER ''2'') OP_ADD (LiteralExpr KUNYU_TOKEN_NUMBER ''3''))
           OP_MUL (LiteralExpr KUNYU_TOKEN_NUMBER ''4''))
        (interpreter_init initial_interp)
      = Returns (Some (PyNumberObject 20), interpreter_init initial_interp)"
    by code_simp
qed

text \<open>The witness: \<open>a + b * c\<close> parses as \<open>(a + b) * c\<close>.\<close>

theorem binary_chain_groups_left_to_right_witness:
  "parse_expression 3
     (parser_init
        [token_at KUNYU_TOKEN_IDENTIFIER ''a'' 1, token_at KUNYU_TOKEN_OPERATOR ''+'' 3,
         token_at KUNYU_TOKEN_IDENTIFIER ''b'' 5, token_at KUNYU_TOKEN_OPERATOR ''*'' 7,
         token_at KUNYU_TOKEN_IDENTIFIER ''c'' 9, token_at KUNYU_TOKEN_DELIMITER '';'' 10,
         token_at KUNYU_TOKEN_EOF [] 11])
   = Returns
       (Some (BinaryExpr (BinaryExpr (VariableExpr ''a'') OP_ADD (VariableExpr ''b'')) OP_MUL (VariableExpr ''c'')),
        (parser_init
           [token_at KUNYU_TOKEN_IDENTIFIER ''a'' 1, token_at KUNYU_TOKEN_OPERATOR ''+'' 3,
            token_at KUNYU_TOKEN_IDENTIFIER ''b'' 5, token_at KUNYU_TOKEN_OPERATOR ''*'' 7,
            token_at KUNYU_TOKEN_IDENTIFIER ''c'' 9, token_at KUNYU_TOKEN_DELIMITER '';'' 10,
            token_at KUNYU_TOKEN_EOF [] 11])\<lparr>current := 5\<rparr>)"
  using binary_chain_groups_left_to_right[THEN conjunct1,
      of "token_at KUNYU_TOKEN_IDENTIFIER ''a'' 1"
         "[(token_at KUNYU_TOKEN_OPERATOR ''+'' 3, OP_ADD, token_at KUNYU_TOKEN_IDENTIFIER ''b'' 5),
           (token_at KUNYU_TOKEN_OPERATOR ''*'' 7, OP_MUL, token_at KUNYU_TOKEN_IDENTIFIER ''c'' 9)]"
         "[token_at KUNYU_TOKEN_DELIMITER '';'' 10, token_at KUNYU_TOKEN_EOF [] 11]"
         3
         "parser_init
           [token_at KUNYU_TOKEN_IDENTIFIER ''a'' 1, token_at KUNYU_TOKEN_OPERATOR ''+'' 3,
            token_at KUNYU_TOKEN_IDENTIFIER ''b'' 5, token_at KUNYU_TOKEN_OPERATOR ''*'' 7,
            token_at KUNYU_TOKEN_IDENTIFIER ''c'' 9, token_at KUNYU_TOKEN_DELIMITER '';'' 10,
            token_at KUNYU_TOKEN_EOF [] 11]"]
  by (simp add: is_atom_def atom_node_def chain_tokens_def chain_node_def ends_chain_def
        binary_op_of_def parser_init_def token_at_def)

section \<open>Expression statements (C2)\<close>

text \<open>
  C2 at the source of the specification: a constant \<open>x\<close> declared with the value 1,
  then \<open>x = 2;\<close>.  Its tokens (as the lexer numbers them: line 1, columns in bytes)
  do not parse.  \<open>parse_statement\<close> consumes the semicolon with \<open>match\<close> and
  compares the token after it, here the end of file, with \<open>";"\<close>: the result is
  the parse error "expected ; as the end of the expression statement" at line 1,
  column 21, and no runtime error is ever reached.
\<close>

theorem single_semicolon_statement_is_a_parse_error:
  "parser_parse 5
     [token_at KUNYU_TOKEN_KEYWORD kw_constant 1, token_at KUNYU_TOKEN_IDENTIFIER ''x'' 8,
      token_at KUNYU_TOKEN_OPERATOR ''='' 10, token_at KUNYU_TOKEN_NUMBER ''1'' 12,
      token_at KUNYU_TOKEN_DELIMITER '';'' 13, token_at KUNYU_TOKEN_IDENTIFIER ''x'' 15,
      token_at KUNYU_TOKEN_OPERATOR ''='' 17, token_at KUNYU_TOKEN_NUMBER ''2'' 19,
      token_at KUNYU_TOKEN_DELIMITER '';'' 20, token_at KUNYU_TOKEN_EOF [] 21]
     (parser_init [])
   = Returns (None,
       \<lparr>tokens =
          [token_at KUNYU_TOKEN_KEYWORD kw_constant 1, token_at KUNYU_TOKEN_IDENTIFIER ''x'' 8,
           token_at KUNYU_TOKEN_OPERATOR ''='' 10, token_at KUNYU_TOKEN_NUMBER ''1'' 12,
           token_at KUNYU_TOKEN_DELIMITER '';'' 13, token_at KUNYU_TOKEN_IDENTIFIER ''x'' 15,
           token_at KUNYU_TOKEN_OPERATOR ''='' 17, token_at KUNYU_TOKEN_NUMBER ''2'' 19,
           token_at KUNYU_TOKEN_DELIMITER '';'' 20, token_at KUNYU_TOKEN_EOF [] 21],
        current = 9,
        error = \<lparr>code = KUNYU_ERROR_PARSER,
                  message = Msg_syntax ''expected ; as the end of the expression statement'',
                  line = 1, column = 21\<rparr>\<rparr>)"
  by code_simp

text \<open>
  With a second semicolon after the assignment the same source parses, and the
  program then fails as the specification describes, with the runtime error for
  the modification of a constant.
\<close>

lemma doubled_semicolon_statement_parses:
  "parser_parse 5
     [token_at KUNYU_TOKEN_KEYWORD kw_constant 1, token_at KUNYU_TOKEN_IDENTIFIER ''x'' 8,
      token_at KUNYU_TOKEN_OPERATOR ''='' 10, token_at KUNYU_TOKEN_NUMBER ''1'' 12,
      token_at KUNYU_TOKEN_DELIMITER '';'' 13, token_at KUNYU_TOKEN_IDENTIFIER ''x'' 15,
      token_at KUNYU_TOKEN_OPERATOR ''='' 17, token_at KUNYU_TOKEN_NUMBER ''2'' 19,
      token_at KUNYU_TOKEN_DELIMITER '';'' 20, token_at KUNYU_TOKEN_DELIMITER '';'' 21,
      token_at KUNYU_TOKEN_EOF [] 22]
     (parser_init [])
   = Returns (Some (Program
        [VarDeclStmt ''x'' (Some (LiteralExpr KUNYU_TOKEN_NUMBER ''1'')) True,
         ExpressionStmt (AssignExpr ''x'' (LiteralExpr KUNYU_TOKEN_NUMBER ''2''))]),
       (parser_init
         [token_at KUNYU_TOKEN_KEYWORD kw_constant 1, token_at KUNYU_TOKEN_IDENTIFIER ''x'' 8,
          token_at KUNYU_TOKEN_OPERATOR ''='' 10, token_at KUNYU_TOKEN_NUMBER ''1'' 12,
          token_at KUNYU_TOKEN_DELIMITER '';'' 13, token_at KUNYU_TOKEN_IDENTIFIER ''x'' 15,
          token_at KUNYU_TOKEN_OPERATOR ''='' 17, token_at KUNYU_TOKEN_NUMBER ''2'' 19,
          token_at KUNYU_TOKEN_DELIMITER '';'' 20, token_at KUNYU_TOKEN_DELIMITER '';'' 21,
          token_at KUNYU_TOKEN_EOF [] 22])\<lparr>current := 10\<rparr>)"
  by code_simp

lemma assignment_to_constant_program_fails_at_run_time:
  "interpreter_execute 4
     (Some (Program
        [VarDeclStmt ''x'' (Some (LiteralExpr KUNYU_TOKEN_NUMBER ''1'')) True,
         ExpressionStmt (AssignExpr ''x'' (LiteralExpr KUNYU_TOKEN_NUMBER ''2''))]))
     initial_interp
   = Returns (False, set_error KUNYU_ERROR_RUNTIME (Msg_cannot_modify_constant ''x'')
       ((interpreter_init initial_interp)\<lparr>current_scope :=
          [[\<lparr>var_name = ''x'', is_constant = True, var_value = Some (PyNumberObject 1)\<rparr>]]\<rparr>))"
  by code_simp

section \<open>Logical operators (C3)\<close>





section \<open>Division and modulo (C5)\<close>

text \<open>
  C5 at the input \<open>5 % 0.5\<close>: the divisor is not zero, so the guard of \<open>OP_MOD\<close>
  lets it pass; the operands are then converted to \<open>int\<close>, the divisor becomes 0,
  and the \<open>%\<close> of C divides by zero: the behaviour is undefined, where the
  specification promises the remainder of the converted operands or a runtime error.
\<close>

theorem modulo_by_a_fraction_below_one_is_undefined:
  "interpreter_execute 4
     (Some (Program [PrintStmt
        (BinaryExpr (LiteralExpr KUNYU_TOKEN_NUMBER ''5'') OP_MOD (LiteralExpr KUNYU_TOKEN_NUMBER ''0.5''))]))
     initial_interp
   = Undefined"
  by code_simp

section \<open>A function that ends without a return statement (C4)\<close>

text \<open>
  C4 at the program that declares \<open>f\<close> with an empty body and then calls it in an
  expression statement.  The call returns NULL, with the return flag and the
  return value cleared; NULL is also what an expression returns when it fails, so
  the expression statement fails, and the program with it, although no error was
  recorded (the code stays \<open>KUNYU_OK\<close>).
\<close>

theorem call_without_return_fails_the_statement:
  "interpreter_execute 5
     (Some (Program [FunctionStmt ''f'' [] (BlockStmt []), ExpressionStmt (CallExpr ''f'' [])]))
     initial_interp
   = Returns (False, (interpreter_init initial_interp)
       \<lparr>function_table := [\<lparr>func_name = ''f'', params = [], body = BlockStmt []\<rparr>]\<rparr>)"
  by code_simp

section \<open>String concatenation and the text of a number (C6)\<close>









section \<open>The position of a runtime error (C10)\<close>

text \<open>
  C10.  \<open>interpreter_init\<close> sets the line and the column of the interpreter's error
  to 0; the evaluation of an expression and the execution of a statement leave
  both as they are, whatever they are, since every error site assigns the code and
  the message only; hence every run of \<open>interpreter_execute\<close> that returns, with
  or without a runtime error, leaves line 0 and column 0.
\<close>

theorem runtime_errors_carry_line_and_column_zero:
  "line (interpreter_error (interpreter_init st0)) = 0
   \<and> column (interpreter_error (interpreter_init st0)) = 0
   \<and> (eval_expression n node st = Returns (v, st1) \<longrightarrow>
        line (interpreter_error st1) = line (interpreter_error st)
        \<and> column (interpreter_error st1) = column (interpreter_error st))
   \<and> (execute_statement n node st = Returns (ok, st2) \<longrightarrow>
        line (interpreter_error st2) = line (interpreter_error st)
        \<and> column (interpreter_error st2) = column (interpreter_error st))
   \<and> (interpreter_execute n (Some ast) st0 = Returns (ok', st3) \<longrightarrow>
        line (interpreter_error st3) = 0 \<and> column (interpreter_error st3) = 0)"
proof -
  have init: "error_position (interpreter_init st0) = (0, 0)"
    by (simp add: error_position_def interpreter_init_def)
  have ev: "error_position st1 = error_position st" if "eval_expression n node st = Returns (v, st1)"
    using ev_okD[OF conjunct1[OF evaluator_invariant] that] by (simp add: preserves_def)
  have ex: "error_position st2 = error_position st" if "execute_statement n node st = Returns (ok, st2)"
    using ex_okD[OF conjunct2[OF evaluator_invariant] that] by (simp add: grows_def)
  have run: "error_position st3 = (0, 0)" if "interpreter_execute n (Some ast) st0 = Returns (ok', st3)"
  proof -
    from that have "execute_program n ast (interpreter_init st0) = Returns (ok', st3)"
      by (simp add: interpreter_execute_def)
    from execute_program_grows[OF this] init show ?thesis
      by (simp add: grows_def)
  qed
  from init ev ex run show ?thesis
    by (simp add: error_position_def)
qed

text \<open>
  The witness: the program \<open>print 1 / 0;\<close>, run when the interpreter's error still
  holds line 7 and column 3 from before.
\<close>

theorem runtime_errors_carry_line_and_column_zero_witness:
  "interpreter_execute 4
     (Some (Program [PrintStmt
        (BinaryExpr (LiteralExpr KUNYU_TOKEN_NUMBER ''1'') OP_DIV (LiteralExpr KUNYU_TOKEN_NUMBER ''0''))]))
     (initial_interp\<lparr>interpreter_error :=
        \<lparr>code = KUNYU_ERROR_RUNTIME, message = Msg_type_mismatch, line = 7, column = 3\<rparr>\<rparr>)
   = Returns (False, set_error KUNYU_ERROR_RUNTIME Msg_division_by_zero (interpreter_init initial_interp))
   \<and> line (interpreter_error (set_error KUNYU_ERROR_RUNTIME Msg_division_by_zero (interpreter_init initial_interp))) = 0
   \<and> column (interpreter_error (set_error KUNYU_ERROR_RUNTIME Msg_division_by_zero (interpreter_init initial_interp))) = 0"
proof -
  have run: "interpreter_execute 4
     (Some (Program [PrintStmt
        (BinaryExpr (LiteralExpr KUNYU_TOKEN_NUMBER ''1'') OP_DIV (LiteralExpr KUNYU_TOKEN_NUMBER ''0''))]))
     (initial_interp\<lparr>interpreter_error :=
        \<lparr>code = KUNYU_ERROR_RUNTIME, message = Msg_type_mismatch, line = 7, column = 3\<rparr>\<rparr>)
   = Returns (False, set_error KUNYU_ERROR_RUNTIME Msg_division_by_zero (interpreter_init initial_interp))"
    by code_simp
  from runtime_errors_carry_line_and_column_zero[THEN conjunct2, THEN conjunct2, THEN conjunct2,
      THEN conjunct2, THEN mp, OF run] run
  show ?thesis by simp
qed

section \<open>Scope discipline (C7)\<close>

text \<open>
  A name is absent from a frame, and from a chain of frames, exactly when the shape of the
  frames does not list it.
\<close>

lemma find_variable_in_scope_None:
  "find_variable_in_scope name scope = None \<longleftrightarrow>
     name \<notin> fst ` set (map (\<lambda>entry. (var_name entry, is_constant entry)) scope)"
  by (induction scope) (auto simp: find_variable_in_scope_def)

lemma find_variable_None_shape:
  "find_variable name scopes = None \<longleftrightarrow>
     (\<forall>frame \<in> set (map (map (\<lambda>entry. (var_name entry, is_constant entry))) scopes).
        name \<notin> fst ` set frame)"
proof (induction scopes)
  case Nil
  show ?case by simp
next
  case (Cons scope parent)
  show ?case
  proof (cases "find_variable_in_scope name scope")
    case None
    with Cons find_variable_in_scope_None[of name scope] show ?thesis by simp
  next
    case (Some entry)
    with find_variable_in_scope_None[of name scope] show ?thesis by simp
  qed
qed

text \<open>A block statement that returns leaves the chain of scopes with the shape it found.\<close>

lemma execute_block_statement_shape:
  assumes "execute_statement n (BlockStmt stmts) st = Returns (ok, st')"
  shows "scope_shape st' = scope_shape st"
proof (cases n)
  case 0
  with assms show ?thesis by simp
next
  case (Suc m)
  with assms have "execute_block (execute_statement m) (BlockStmt stmts) st = Returns (ok, st')"
    by (simp add: execute_statement_body_def)
  from execute_block_preserves[OF conjunct2[OF evaluator_invariant] this]
  show ?thesis by (simp add: preserves_def)
qed

text \<open>
  Claim C7.  Scope discipline.  \<open>define_variable\<close> looks for the name in the innermost
  frame only: when the name is not there the declaration succeeds and puts a new entry at
  the head of that frame, every enclosing frame (also one that binds the same name) being
  left as it was, so the new entry shadows the outer one; when the name is there the
  declaration fails with the error "variable already defined".  A block statement that
  returns gives back a state whose frames list the same names as before the block, so a
  name is unbound after the block exactly when it was unbound before it: what the block
  declared is not reachable after it.  \<open>set_variable\<close> fails with "undefined variable" when
  no frame binds the name and with "cannot modify constant" when the innermost binding of the
  name is constant, the only change of the state being the error.  A declaration statement
  and an assignment expression whose right-hand side evaluates to a value are those calls of
  \<open>define_variable\<close> and \<open>set_variable\<close>.
\<close>

theorem scope_discipline:
  "(current_scope st = scope # parent \<and> find_variable_in_scope name scope = None
      \<longrightarrow> define_variable name v c st =
            Returns (True, st\<lparr>current_scope :=
              (\<lparr>var_name = name, is_constant = c, var_value = v\<rparr> # scope) # parent\<rparr>))
   \<and> (current_scope st = scope # parent \<and> find_variable_in_scope name scope \<noteq> None
      \<longrightarrow> define_variable name v c st =
            Returns (False, set_error KUNYU_ERROR_RUNTIME (Msg_variable_already_defined name) st))
   \<and> (execute_statement n (BlockStmt stmts) st = Returns (ok, st')
      \<longrightarrow> scope_shape st' = scope_shape st
          \<and> (\<forall>x. (find_variable x (current_scope st') = None) = (find_variable x (current_scope st) = None)))
   \<and> (find_variable name (current_scope st) = None
      \<longrightarrow> set_variable name v st =
            (False, set_error KUNYU_ERROR_RUNTIME (Msg_undefined_variable name) st))
   \<and> (find_variable name (current_scope st) = Some entry \<and> is_constant entry
      \<longrightarrow> set_variable name v st =
            (False, set_error KUNYU_ERROR_RUNTIME (Msg_cannot_modify_constant name) st))
   \<and> (eval_expression n e st = Returns (Some val, st1)
      \<longrightarrow> execute_statement (Suc n) (VarDeclStmt name (Some e) c) st
            = define_variable name (Some val) c st1
          \<and> eval_expression (Suc n) (AssignExpr name e) st
            = (case set_variable name (Some val) st1 of
                 (False, st2) \<Rightarrow> Returns (None, st2)
               | (True, st2) \<Rightarrow> Returns (Some val, st2)))"
proof (intro conjI impI allI)
  assume "execute_statement n (BlockStmt stmts) st = Returns (ok, st')"
  from execute_block_statement_shape[OF this]
  show sh: "scope_shape st' = scope_shape st" .
  fix x
  from sh show "(find_variable x (current_scope st') = None) = (find_variable x (current_scope st) = None)"
    by (simp add: find_variable_None_shape scope_shape_def)
qed (auto simp: define_variable_def set_variable_def execute_statement_body_def exec_var_decl_def
       eval_expression_body_def eval_assign_expr_def)

text \<open>
  The theorem at concrete states: \<open>x\<close> declared in an empty inner frame over a frame that
  binds a constant \<open>x\<close>; \<open>x\<close> declared again in its own frame; a block that declares
  \<open>y\<close>, after which \<open>y\<close> is unbound; an assignment to the unbound \<open>y\<close>; an assignment to
  the constant \<open>x\<close>, by \<open>set_variable\<close> and by the expression \<open>x = 4\<close>.
\<close>

theorem scope_discipline_witness:
  "define_variable ''x'' (Some (PyNumberObject 2)) False
     (initial_interp\<lparr>current_scope :=
        [[], [\<lparr>var_name = ''x'', is_constant = True, var_value = Some (PyNumberObject 1)\<rparr>]]\<rparr>)
   = Returns (True, initial_interp\<lparr>current_scope :=
        [[\<lparr>var_name = ''x'', is_constant = False, var_value = Some (PyNumberObject 2)\<rparr>],
         [\<lparr>var_name = ''x'', is_constant = True, var_value = Some (PyNumberObject 1)\<rparr>]]\<rparr>)
   \<and> define_variable ''x'' (Some (PyNumberObject 2)) False
     (initial_interp\<lparr>current_scope :=
        [[\<lparr>var_name = ''x'', is_constant = True, var_value = Some (PyNumberObject 1)\<rparr>]]\<rparr>)
   = Returns (False, set_error KUNYU_ERROR_RUNTIME (Msg_variable_already_defined ''x'')
       (initial_interp\<lparr>current_scope :=
        [[\<lparr>var_name = ''x'', is_constant = True, var_value = Some (PyNumberObject 1)\<rparr>]]\<rparr>))
   \<and> execute_statement 3 (BlockStmt [VarDeclStmt ''y'' (Some (LiteralExpr KUNYU_TOKEN_NUMBER ''3'')) False])
     (initial_interp\<lparr>current_scope :=
        [[\<lparr>var_name = ''x'', is_constant = True, var_value = Some (PyNumberObject 1)\<rparr>]]\<rparr>)
   = Returns (True, initial_interp\<lparr>current_scope :=
        [[\<lparr>var_name = ''x'', is_constant = True, var_value = Some (PyNumberObject 1)\<rparr>]]\<rparr>)
   \<and> find_variable ''y'' (current_scope (initial_interp\<lparr>current_scope :=
        [[\<lparr>var_name = ''x'', is_constant = True, var_value = Some (PyNumberObject 1)\<rparr>]]\<rparr>)) = None
   \<and> set_variable ''y'' (Some (PyNumberObject 4))
     (initial_interp\<lparr>current_scope :=
        [[\<lparr>var_name = ''x'', is_constant = True, var_value = Some (PyNumberObject 1)\<rparr>]]\<rparr>)
   = (False, set_error KUNYU_ERROR_RUNTIME (Msg_undefined_variable ''y'')
       (initial_interp\<lparr>current_scope :=
        [[\<lparr>var_name = ''x'', is_constant = True, var_value = Some (PyNumberObject 1)\<rparr>]]\<rparr>))
   \<and> set_variable ''x'' (Some (PyNumberObject 4))
     (initial_interp\<lparr>current_scope :=
        [[\<lparr>var_name = ''x'', is_constant = True, var_value = Some (PyNumberObject 1)\<rparr>]]\<rparr>)
   = (False, set_error KUNYU_ERROR_RUNTIME (Msg_cannot_modify_constant ''x'')
       (initial_interp\<lparr>current_scope :=
        [[\<lparr>var_name = ''x'', is_constant = True, var_value = Some (PyNumberObject 1)\<rparr>]]\<rparr>))
   \<and> eval_expression 2 (AssignExpr ''x'' (LiteralExpr KUNYU_TOKEN_NUMBER ''4''))
     (initial_interp\<lparr>current_scope :=
        [[\<lparr>var_name = ''x'', is_constant = True, var_value = Some (PyNumberObject 1)\<rparr>]]\<rparr>)
   = Returns (None, set_error KUNYU_ERROR_RUNTIME (Msg_cannot_modify_constant ''x'')
       (initial_interp\<lparr>current_scope :=
        [[\<lparr>var_name = ''x'', is_constant = True, var_value = Some (PyNumberObject 1)\<rparr>]]\<rparr>))"
proof -
  let ?x = "\<lparr>var_name = ''x'', is_constant = True, var_value = Some (PyNumberObject 1)\<rparr>"
  let ?st = "initial_interp\<lparr>current_scope := [[?x]]\<rparr>"
  let ?st2 = "initial_interp\<lparr>current_scope := [[], [?x]]\<rparr>"
  note t = scope_discipline
  have c2: "current_scope ?st2 = [] # [[?x]] \<and> find_variable_in_scope ''x'' [] = None"
    by (simp add: find_variable_in_scope_def)
  have c1: "current_scope ?st = [?x] # [] \<and> find_variable_in_scope ''x'' [?x] \<noteq> None"
    by (simp add: find_variable_in_scope_def)
  have blk: "execute_statement 3 (BlockStmt [VarDeclStmt ''y'' (Some (LiteralExpr KUNYU_TOKEN_NUMBER ''3'')) False]) ?st
               = Returns (True, ?st)"
    by code_simp
  have ny: "find_variable ''y'' (current_scope ?st) = None"
    by (simp add: find_variable_in_scope_def)
  have cx: "find_variable ''x'' (current_scope ?st) = Some ?x \<and> is_constant ?x"
    by (simp add: find_variable_in_scope_def)
  have lit: "eval_expression 1 (LiteralExpr KUNYU_TOKEN_NUMBER ''4'') ?st = Returns (Some (PyNumberObject 4), ?st)"
    by code_simp
  from t[THEN conjunct1, THEN mp, OF c2]
  have a: "define_variable ''x'' (Some (PyNumberObject 2)) False ?st2
             = Returns (True, ?st2\<lparr>current_scope :=
                 (\<lparr>var_name = ''x'', is_constant = False, var_value = Some (PyNumberObject 2)\<rparr> # []) # [[?x]]\<rparr>)" .
  from t[THEN conjunct2, THEN conjunct1, THEN mp, OF c1]
  have b: "define_variable ''x'' (Some (PyNumberObject 2)) False ?st
             = Returns (False, set_error KUNYU_ERROR_RUNTIME (Msg_variable_already_defined ''x'') ?st)" .
  from t[THEN conjunct2, THEN conjunct2, THEN conjunct1, THEN mp, OF blk] ny
  have c: "find_variable ''y'' (current_scope ?st) = None" by simp
  from t[THEN conjunct2, THEN conjunct2, THEN conjunct2, THEN conjunct1, THEN mp, OF ny]
  have d: "set_variable ''y'' (Some (PyNumberObject 4)) ?st
             = (False, set_error KUNYU_ERROR_RUNTIME (Msg_undefined_variable ''y'') ?st)" .
  from t[THEN conjunct2, THEN conjunct2, THEN conjunct2, THEN conjunct2, THEN conjunct1, THEN mp, OF cx]
  have e: "set_variable ''x'' (Some (PyNumberObject 4)) ?st
             = (False, set_error KUNYU_ERROR_RUNTIME (Msg_cannot_modify_constant ''x'') ?st)" .
  from t[THEN conjunct2, THEN conjunct2, THEN conjunct2, THEN conjunct2, THEN conjunct2, THEN mp, OF lit,
         THEN conjunct2, of "''x''"] e
  have f: "eval_expression 2 (AssignExpr ''x'' (LiteralExpr KUNYU_TOKEN_NUMBER ''4'')) ?st
             = Returns (None, set_error KUNYU_ERROR_RUNTIME (Msg_cannot_modify_constant ''x'') ?st)"
    by (simp add: numeral_2_eq_2)
  from a b blk c d e f show ?thesis by simp
qed

section \<open>Calls of user functions (C8)\<close>



section \<open>Reference counts of list elements (C9)\<close>









end
